theory Spec2Isabelle
  imports Main
begin

section \<open>JavaScript strings and values\<close>

text \<open>
  A JavaScript string is modelled as a \<^typ>\<open>string\<close>; one \<^typ>\<open>char\<close> stands for one
  code unit in the range 0..255 (Latin-1).  The three string methods that
  \<^verbatim>\<open>server.js\<close> calls are written out for that range:
  \<^verbatim>\<open>String.prototype.includes\<close>, \<^verbatim>\<open>toLowerCase\<close> and \<^verbatim>\<open>trim\<close>.
\<close>

fun startsWith :: "string \<Rightarrow> string \<Rightarrow> bool" where
  "startsWith s [] = True"
| "startsWith [] (c # t) = False"
| "startsWith (a # s) (c # t) = (a = c \<and> startsWith s t)"

text \<open>\<^verbatim>\<open>s.includes(t)\<close>: search for \<open>t\<close> at position 0, 1, ... of \<open>s\<close>.\<close>

fun str_includes :: "string \<Rightarrow> string \<Rightarrow> bool" where
  "str_includes [] t = (t = [])"
| "str_includes (a # s) t = (startsWith (a # s) t \<or> str_includes s t)"

definition isUpper :: "char \<Rightarrow> bool" where
  "isUpper c = (let n = (of_char c :: nat) in
     (65 \<le> n \<and> n \<le> 90) \<or> (192 \<le> n \<and> n \<le> 222 \<and> n \<noteq> 215))"

definition toLowerChar :: "char \<Rightarrow> char" where
  "toLowerChar c = (if isUpper c then char_of ((of_char c :: nat) + 32) else c)"

definition toLowerCase :: "string \<Rightarrow> string" where
  "toLowerCase s = map toLowerChar s"

text \<open>White space and line terminators of ECMAScript below 256: TAB, LF, VT, FF, CR, SP, NBSP.\<close>

definition isSpace :: "char \<Rightarrow> bool" where
  "isSpace c = (let n = (of_char c :: nat) in (9 \<le> n \<and> n \<le> 13) \<or> n = 32 \<or> n = 160)"

definition trim :: "string \<Rightarrow> string" where
  "trim s = rev (dropWhile isSpace (rev (dropWhile isSpace s)))"

text \<open>
  The JavaScript values that occur in requests, logs, extracted records and responses.
  An object is its list of properties in insertion order; \<open>Err m\<close> is an error object
  with message \<open>m\<close>.
\<close>

datatype jsval =
    Undefined
  | Null
  | Bool bool
  | Num nat
  | Str string
  | Err string
  | Obj "(string \<times> jsval) list"

text \<open>ToBoolean: what \<^verbatim>\<open>if (v)\<close>, \<^verbatim>\<open>!v\<close> and \<^verbatim>\<open>||\<close> test.\<close>

fun truthy :: "jsval \<Rightarrow> bool" where
  "truthy Undefined = False"
| "truthy Null = False"
| "truthy (Bool b) = b"
| "truthy (Num n) = (n \<noteq> 0)"
| "truthy (Str s) = (s \<noteq> [])"
| "truthy (Err m) = True"
| "truthy (Obj ps) = True"

text \<open>
  An object, by its properties.  Property read \<^verbatim>\<open>o.k\<close> on an object:
  \<^verbatim>\<open>undefined\<close> when the property is missing.
\<close>

type_synonym object = "(string \<times> jsval) list"

definition getProp :: "object \<Rightarrow> string \<Rightarrow> jsval" where
  "getProp ps k = (case map_of ps k of Some v \<Rightarrow> v | None \<Rightarrow> Undefined)"

text \<open>
  Optional chaining \<^verbatim>\<open>v?.k\<close>: \<^verbatim>\<open>undefined\<close> when \<open>v\<close> is \<^verbatim>\<open>null\<close> or
  \<^verbatim>\<open>undefined\<close>, the property read otherwise.
\<close>

fun optProp :: "jsval \<Rightarrow> string \<Rightarrow> jsval" where
  "optProp (Obj ps) k = getProp ps k"
| "optProp (Err m) k = (if k = ''message'' then Str m else Undefined)"
| "optProp v k = Undefined"

text \<open>An optional string field of the JSON body: absent reads as \<^verbatim>\<open>undefined\<close>.\<close>

fun optField :: "string option \<Rightarrow> jsval" where
  "optField None = Undefined"
| "optField (Some s) = Str s"

text \<open>Interpolation \<^verbatim>\<open>${x}\<close> of such a field in a template literal.\<close>

fun interp :: "string option \<Rightarrow> string" where
  "interp None = ''undefined''"
| "interp (Some s) = s"

section \<open>Supplier detection\<close>

text \<open>\<^verbatim>\<open>function detectSupplier(url)\<close>, lines 154-160.\<close>

definition detectSupplier :: "string \<Rightarrow> string" where
  "detectSupplier u =
    (if str_includes u ''richelieu.com'' then ''Richelieu''
     else if str_includes u ''homedepot.com'' \<or> str_includes u ''homedepot.ca'' then ''Home Depot''
     else if str_includes u ''lowes.com'' \<or> str_includes u ''lowes.ca'' then ''Lowe's''
     else if str_includes u ''amazon.com'' \<or> str_includes u ''amazon.ca'' then ''Amazon''
     else ''Generic'')"

text \<open>
  The classifier in the specification's words: a closed set of variants, the host
  fragments of each in the fixed priority order, substring match, first match wins,
  no match gives Generic.
\<close>

datatype SupplierVariant = Richelieu | HomeDepot | Lowes | Amazon | Generic

definition contains :: "string \<Rightarrow> string \<Rightarrow> bool" where
  "contains s frag = (\<exists>p q. s = p @ frag @ q)"

definition classify_spec :: "string \<Rightarrow> SupplierVariant" where
  "classify_spec u =
    (if contains u ''richelieu.com'' then Richelieu
     else if contains u ''homedepot.com'' \<or> contains u ''homedepot.ca'' then HomeDepot
     else if contains u ''lowes.com'' \<or> contains u ''lowes.ca'' then Lowes
     else if contains u ''amazon.com'' \<or> contains u ''amazon.ca'' then Amazon
     else Generic)"

fun label :: "SupplierVariant \<Rightarrow> string" where
  "label Richelieu = ''Richelieu''"
| "label HomeDepot = ''Home Depot''"
| "label Lowes = ''Lowe's''"
| "label Amazon = ''Amazon''"
| "label Generic = ''Generic''"

section \<open>The rendered page\<close>

text \<open>
  The extraction functions run inside the browser against the live document.  What
  they read of it: the elements that a selector matches, in document order, and of
  an element its text, its serialised markup and (for an image) its \<^verbatim>\<open>src\<close>.
\<close>

record element =
  textContent :: string
  outerHTML :: string
  src :: "string option"

record document =
  querySelectorAll :: "string \<Rightarrow> element list"
  href :: string

definition querySelector :: "document \<Rightarrow> string \<Rightarrow> element option" where
  "querySelector doc selector =
    (case querySelectorAll doc selector of [] \<Rightarrow> None | el # rest \<Rightarrow> Some el)"

text \<open>The helper \<^verbatim>\<open>getTextContent\<close> that every strategy declares, and \<^verbatim>\<open>getElementHTML\<close>.\<close>

definition getTextContent :: "document \<Rightarrow> string \<Rightarrow> jsval" where
  "getTextContent doc selector =
    (case querySelector doc selector of
       Some el \<Rightarrow> Str (trim (textContent el))
     | None \<Rightarrow> Null)"

definition getElementHTML :: "document \<Rightarrow> string \<Rightarrow> jsval" where
  "getElementHTML doc selector =
    (case querySelector doc selector of
       Some el \<Rightarrow> Str (outerHTML el)
     | None \<Rightarrow> Null)"

text \<open>\<^verbatim>\<open>imageElement ? imageElement.src : null\<close>\<close>

definition imageSrc :: "element option \<Rightarrow> jsval" where
  "imageSrc imageElement =
    (case imageElement of Some el \<Rightarrow> optField (src el) | None \<Rightarrow> Null)"

text \<open>\<^verbatim>\<open>Array.prototype.join\<close>\<close>

fun join :: "string \<Rightarrow> string list \<Rightarrow> string" where
  "join sep [] = []"
| "join sep [x] = x"
| "join sep (x # y # ys) = x @ sep @ join sep (y # ys)"

text \<open>\<^verbatim>\<open>html ? html.substring(0, 500) : fallback\<close>\<close>

definition snippet :: "jsval \<Rightarrow> string \<Rightarrow> jsval" where
  "snippet html fallback =
    (if truthy html then (case html of Str s \<Rightarrow> Str (take 500 s) | v \<Rightarrow> v)
     else Str fallback)"

section \<open>Extraction strategies\<close>

text \<open>
  The \<^verbatim>\<open>for (const item of priceBlockItems)\<close> loop of \<^verbatim>\<open>scrapeRichelieu\<close>
  (lines 262-268): \<open>msrp\<close> starts as \<^verbatim>\<open>null\<close> and the loop stops at the first
  keyword match.
\<close>

fun scanPriceBlock :: "element list \<Rightarrow> jsval" where
  "scanPriceBlock [] = Null"
| "scanPriceBlock (item # items) =
    (let text = toLowerCase (textContent item) in
     if str_includes text ''msrp'' \<or> str_includes text ''list'' \<or> str_includes text ''retail''
     then Str (trim (textContent item))
     else scanPriceBlock items)"

text \<open>The function that \<^verbatim>\<open>scrapeRichelieu\<close> evaluates in the page (lines 232-310).\<close>

definition richelieuMsrp :: "document \<Rightarrow> jsval" where
  "richelieuMsrp doc =
    (let priceBlockItems = querySelectorAll doc ''.pms-PriceBlock li'';
         msrp = (if length priceBlockItems > 0 then scanPriceBlock priceBlockItems else Null)
     in if \<not> truthy msrp
        then getTextContent doc ''.list-price, .price-was, .msrp-price, .retail-price''
        else msrp)"

definition richelieuPage :: "document \<Rightarrow> object" where
  \<open>richelieuPage doc =
    (let name = getTextContent doc
           ''h1.product-name, h1[itemprop="name"], .product-title h1, h1'';
         sku = getTextContent doc
           ''.pms-PartNumber, [itemprop="sku"], .product-sku, .product-code, .sku-number'';
         price0 = getTextContent doc
           ''.pms-Price, [itemprop="price"], .product-price, .pms-PriceBlock_Main .pms-PriceBlock_BreaksPrice'';
         price = (if \<not> truthy price0
                  then getTextContent doc ''.your-price, .price-now, .price, [class*="price"]''
                  else price0);
         msrp = richelieuMsrp doc;
         description = getTextContent doc
           ''.product-description, .product-details, [itemprop="description"]'';
         brand = getTextContent doc ''.product-brand, .brand-name, [itemprop="brand"]'';
         imageElement = querySelector doc
           ''.product-image img, .main-image img, img[itemprop="image"]'';
         imageUrl = imageSrc imageElement;
         categoryElements = querySelectorAll doc ''.breadcrumb a, nav.breadcrumb a'';
         categoryPath = join '' > '' (map (\<lambda>el. trim (textContent el)) categoryElements);
         priceHTML = getElementHTML doc
           ''.pms-Price, [itemprop="price"], .product-price, .your-price, .price-now'';
         skuHTML = getElementHTML doc ''.pms-PartNumber, [itemprop="sku"], .product-sku''
     in [(''name'', name),
             (''sku'', sku),
             (''price'', price),
             (''msrp'', msrp),
             (''description'', description),
             (''brand'', brand),
             (''imageUrl'', imageUrl),
             (''categoryPath'', Str categoryPath),
             (''url'', Str (href doc)),
             (''debug'', Obj [(''priceHTML'', snippet priceHTML ''No price element found''),
                              (''skuHTML'', snippet skuHTML ''No SKU element found'')])])\<close>

text \<open>The page functions of \<^verbatim>\<open>scrapeHomeDepot\<close>, \<^verbatim>\<open>scrapeLowes\<close>, \<^verbatim>\<open>scrapeAmazon\<close>
  and \<^verbatim>\<open>scrapeGeneric\<close>.\<close>

definition homeDepotPage :: "document \<Rightarrow> object" where
  \<open>homeDepotPage doc =
    (let name = getTextContent doc
           ''h1.product-details__title, h1[data-testid="product-title"]'';
         sku = getTextContent doc
           ''.product-info-bar__detail--sku, [data-testid="product-sku"]'';
         price = getTextContent doc ''[data-testid="product-price"], .price__dollars'';
         brand = getTextContent doc ''.product-details__brand, [data-testid="product-brand"]'';
         imageElement = querySelector doc
           ''.mediagallery__mainimage img, [data-testid="product-image"] img'';
         imageUrl = imageSrc imageElement
     in [(''name'', name),
             (''sku'', sku),
             (''price'', price),
             (''brand'', brand),
             (''imageUrl'', imageUrl),
             (''url'', Str (href doc))])\<close>

definition lowesPage :: "document \<Rightarrow> object" where
  \<open>lowesPage doc =
    (let name = getTextContent doc ''h1.pdp-header, h1[itemprop="name"]'';
         sku = getTextContent doc ''.product-code, [itemprop="productID"]'';
         price = getTextContent doc ''.item-price, .price-format__main-price'';
         brand = getTextContent doc ''.pdp-brand, [itemprop="brand"]'';
         imageElement = querySelector doc ''.main-image img, .pdp-image img'';
         imageUrl = imageSrc imageElement
     in [(''name'', name),
             (''sku'', sku),
             (''price'', price),
             (''brand'', brand),
             (''imageUrl'', imageUrl),
             (''url'', Str (href doc))])\<close>

definition amazonPage :: "document \<Rightarrow> object" where
  \<open>amazonPage doc =
    (let name = getTextContent doc ''#productTitle, h1.a-size-large'';
         price = getTextContent doc ''.a-price-whole, .a-price.a-text-price.a-size-medium'';
         brand = getTextContent doc ''#bylineInfo, .po-brand .po-break-word'';
         imageElement = querySelector doc ''#landingImage, #imgTagWrapperId img'';
         imageUrl = imageSrc imageElement;
         sku = Null
     in [(''name'', name),
             (''sku'', sku),
             (''price'', price),
             (''brand'', brand),
             (''imageUrl'', imageUrl),
             (''url'', Str (href doc))])\<close>

definition genericPage :: "document \<Rightarrow> object" where
  \<open>genericPage doc =
    (let name = getTextContent doc ''h1, .product-title, .product-name, [itemprop="name"]'';
         sku = getTextContent doc ''.sku, .product-code, .item-number, [itemprop="sku"]'';
         price = getTextContent doc ''.price, .product-price, .sale-price, [itemprop="price"]'';
         description = getTextContent doc
           ''.description, .product-description, [itemprop="description"]'';
         imageElement = querySelector doc
           ''img.product-image, img.main-image, [itemprop="image"]'';
         imageUrl = imageSrc imageElement
     in [(''name'', name),
             (''sku'', sku),
             (''price'', price),
             (''description'', description),
             (''imageUrl'', imageUrl),
             (''url'', Str (href doc))])\<close>

text \<open>The selectors that each page function queries, as they stand in the source.\<close>

definition richelieuSelectors :: "string list" where
  \<open>richelieuSelectors =
    [''h1.product-name, h1[itemprop="name"], .product-title h1, h1'',
     ''.pms-PartNumber, [itemprop="sku"], .product-sku, .product-code, .sku-number'',
     ''.pms-Price, [itemprop="price"], .product-price, .pms-PriceBlock_Main .pms-PriceBlock_BreaksPrice'',
     ''.your-price, .price-now, .price, [class*="price"]'',
     ''.pms-PriceBlock li'',
     ''.list-price, .price-was, .msrp-price, .retail-price'',
     ''.product-description, .product-details, [itemprop="description"]'',
     ''.product-brand, .brand-name, [itemprop="brand"]'',
     ''.product-image img, .main-image img, img[itemprop="image"]'',
     ''.breadcrumb a, nav.breadcrumb a'',
     ''.pms-Price, [itemprop="price"], .product-price, .your-price, .price-now'',
     ''.pms-PartNumber, [itemprop="sku"], .product-sku'']\<close>

definition homeDepotSelectors :: "string list" where
  \<open>homeDepotSelectors =
    [''h1.product-details__title, h1[data-testid="product-title"]'',
     ''.product-info-bar__detail--sku, [data-testid="product-sku"]'',
     ''[data-testid="product-price"], .price__dollars'',
     ''.product-details__brand, [data-testid="product-brand"]'',
     ''.mediagallery__mainimage img, [data-testid="product-image"] img'']\<close>

definition lowesSelectors :: "string list" where
  \<open>lowesSelectors =
    [''h1.pdp-header, h1[itemprop="name"]'',
     ''.product-code, [itemprop="productID"]'',
     ''.item-price, .price-format__main-price'',
     ''.pdp-brand, [itemprop="brand"]'',
     ''.main-image img, .pdp-image img'']\<close>

definition amazonSelectors :: "string list" where
  \<open>amazonSelectors =
    [''#productTitle, h1.a-size-large'',
     ''.a-price-whole, .a-price.a-text-price.a-size-medium'',
     ''#bylineInfo, .po-brand .po-break-word'',
     ''#landingImage, #imgTagWrapperId img'']\<close>

definition genericSelectors :: "string list" where
  \<open>genericSelectors =
    [''h1, .product-title, .product-name, [itemprop="name"]'',
     ''.sku, .product-code, .item-number, [itemprop="sku"]'',
     ''.price, .product-price, .sale-price, [itemprop="price"]'',
     ''.description, .product-description, [itemprop="description"]'',
     ''img.product-image, img.main-image, [itemprop="image"]'']\<close>

section \<open>Effects: the browser host, the log and the response\<close>

text \<open>A thrown JavaScript error, by its message.\<close>

datatype jserror = JsError (message: string)

datatype hostcall =
    Launch
  | NewContext
  | NewPage
  | Goto jsval string nat
  | WaitForTimeout nat
  | QueryHandle string
  | ClickHandle
  | WaitForSelector string string nat
  | Fill string jsval "nat option"
  | Click string
  | Evaluate
  | Screenshot
  | Close

text \<open>
  \<open>Log\<close> is \<^verbatim>\<open>console.log\<close> and \<open>LogError\<close> is \<^verbatim>\<open>console.error\<close> with their
  arguments; \<open>Call c r\<close> is a call of the browser host that returned (\<open>r = None\<close>) or
  threw (\<open>r = Some e\<close>); \<open>Enter f\<close> marks the entry into the function \<open>f\<close> of
  \<^verbatim>\<open>server.js\<close>; \<open>Respond status body\<close> is \<^verbatim>\<open>res.status(status).json(body)\<close>.
\<close>

datatype event =
    Log "jsval list"
  | LogError "jsval list"
  | Call hostcall "jserror option"
  | Enter string
  | Respond nat jsval

text \<open>The calls made to the host in a trace, in order.\<close>

fun hostcallOf :: "event \<Rightarrow> hostcall list" where
  "hostcallOf (Call c r) = [c]"
| "hostcallOf ev = []"

definition hostcalls :: "event list \<Rightarrow> hostcall list" where
  "hostcalls tr = concat (map hostcallOf tr)"

text \<open>
  The outcomes that the browser-automation host holds ready at one moment, one field
  per awaited Playwright call site of \<^verbatim>\<open>server.js\<close>.  \<open>rl_\<close> are the sites of
  \<^verbatim>\<open>loginToRichelieu\<close>, \<open>gl_\<close> those of \<^verbatim>\<open>genericLogin\<close>; \<open>close_try\<close> is
  \<^verbatim>\<open>browser.close()\<close> at line 124 and \<open>close_catch\<close> the one at line 143.
  \<open>evaluate\<close> hands the page function the document it runs against, \<open>screenshot\<close>
  returns the image, given by its base64 text.
\<close>

record host =
  launch :: "jserror + unit"
  newContext :: "jserror + unit"
  newPage :: "jserror + unit"
  rl_goto :: "jserror + unit"
  rl_settle :: "jserror + unit"
  rl_signInButton :: "jserror + bool"
  rl_signInClick :: "jserror + unit"
  rl_signInSettle :: "jserror + unit"
  rl_waitEmail :: "jserror + unit"
  rl_fillUser :: "jserror + unit"
  rl_fillPass :: "jserror + unit"
  rl_submit :: "jserror + unit"
  rl_finalSettle :: "jserror + unit"
  gl_goto :: "jserror + unit"
  gl_fillUser :: "jserror + unit"
  gl_fillPass :: "jserror + unit"
  gl_submit :: "jserror + unit"
  gl_settle :: "jserror + unit"
  goto :: "jserror + unit"
  settle :: "jserror + unit"
  evaluate :: "jserror + document"
  screenshot :: "jserror + string"
  close_try :: "jserror + unit"
  close_catch :: "jserror + unit"

text \<open>
  Playwright and the browser behind it: the outcome of a call depends on all the calls
  made so far in the request, with their arguments, the current call last.  So what
  a login left on the shared page can decide a later navigation, and the text of an
  error can quote the value that was to be filled in.
\<close>

type_synonym playwright = "hostcall list \<Rightarrow> host"

text \<open>
  A procedure is given the trace so far and yields the events it adds, in order, and
  either the error it threw (\<open>Inl\<close>) or its value.
\<close>

type_synonym 'a proc = "event list \<Rightarrow> event list \<times> (jserror + 'a)"

definition ret :: "'a \<Rightarrow> 'a proc" where
  "ret x pre = ([], Inr x)"

definition emit :: "event \<Rightarrow> unit proc" where
  "emit ev pre = ([ev], Inr ())"

text \<open>Sequencing: a throw in the first part skips the rest.\<close>

definition andThen :: "'a proc \<Rightarrow> ('a \<Rightarrow> 'b proc) \<Rightarrow> 'b proc" where
  "andThen m f pre =
    (case m pre of
       (t, Inl e) \<Rightarrow> (t, Inl e)
     | (t, Inr x) \<Rightarrow> (case f x (pre @ t) of (t', r) \<Rightarrow> (t @ t', r)))"

text \<open>\<^verbatim>\<open>try { m } catch (e) { handler }\<close>\<close>

definition tryCatch :: "'a proc \<Rightarrow> (jserror \<Rightarrow> 'a proc) \<Rightarrow> 'a proc" where
  "tryCatch m handler pre =
    (case m pre of
       (t, Inl e) \<Rightarrow> (case handler e (pre @ t) of (t', r) \<Rightarrow> (t @ t', r))
     | (t, Inr x) \<Rightarrow> (t, Inr x))"

text \<open>
  An awaited call \<open>c\<close> of the host at the call site \<open>site\<close>: the host decides the
  outcome from the calls made so far and this one.
\<close>

definition call :: "hostcall \<Rightarrow> (host \<Rightarrow> jserror + 'a) \<Rightarrow> playwright \<Rightarrow> 'a proc" where
  "call c site w pre =
    (let outcome = site (w (hostcalls pre @ [c]))
     in ([Call c (case outcome of Inl e \<Rightarrow> Some e | Inr x \<Rightarrow> None)], outcome))"

text \<open>A whole run starts from the empty trace.\<close>

definition run :: "'a proc \<Rightarrow> event list \<times> (jserror + 'a)" where
  "run m = m []"

section \<open>The request\<close>

record credentials =
  supplierName :: "string option"
  username :: "string option"
  password :: "string option"
  loginUrl :: "string option"

text \<open>The JSON body (\<open>url\<close>, \<open>credentials\<close>) and the Authorization header.\<close>

record request =
  url :: "string option"
  credentials :: "credentials option"
  authorization :: "string option"

text \<open>\<^verbatim>\<open>process.env.RAILWAY_SCRAPER_SECRET\<close>\<close>

record config =
  secret :: "string option"

section \<open>Login flows\<close>

text \<open>\<^verbatim>\<open>async function loginToRichelieu(page, credentials)\<close>, lines 163-210.\<close>

definition loginToRichelieu :: "playwright \<Rightarrow> credentials \<Rightarrow> unit proc" where
  \<open>loginToRichelieu w c =
    andThen (emit (Enter ''loginToRichelieu'')) (\<lambda>_.
    andThen (emit (Log [Str ''Navigating to Richelieu login page...''])) (\<lambda>_.
    andThen (call (Goto (if truthy (optField (loginUrl c)) then optField (loginUrl c)
                         else Str ''https://www.richelieu.com/ca/en/user/login'')
                     ''domcontentloaded'' 30000) rl_goto w) (\<lambda>_.
    andThen (call (WaitForTimeout 2000) rl_settle w) (\<lambda>_.
    andThen (tryCatch
      (andThen (call (QueryHandle
          ''button:has-text("Sign In"), a:has-text("Sign In"), button:has-text("Log In")'')
          rl_signInButton w) (\<lambda>signInButton.
       if signInButton then
         andThen (emit (Log [Str ''Clicking sign in button to open login form...''])) (\<lambda>_.
         andThen (call ClickHandle rl_signInClick w) (\<lambda>_.
         call (WaitForTimeout 1000) rl_signInSettle w))
       else ret ()))
      (\<lambda>e. emit (Log [Str ''No sign in button found, proceeding to fill form...'']))) (\<lambda>_.
    andThen (tryCatch
      (call (WaitForSelector ''input[type="email"], input[name="email"], input#email''
          ''visible'' 5000) rl_waitEmail w)
      (\<lambda>e. emit (Log [Str ''Email field not visible, trying alternative selectors...'']))) (\<lambda>_.
    andThen (call (Fill ''input[type="email"], input[name="email"], input#email''
                     (optField (username c)) (Some 5000)) rl_fillUser w) (\<lambda>_.
    andThen (call (Fill ''input[type="password"], input[name="password"], input#password''
                     (optField (password c)) (Some 5000)) rl_fillPass w) (\<lambda>_.
    andThen (call (Click
        ''button[type="submit"], button:has-text("Sign In"), button:has-text("Log In"), input[type="submit"]'')
        rl_submit w) (\<lambda>_.
    andThen (call (WaitForTimeout 3000) rl_finalSettle w) (\<lambda>_.
    emit (Log [Str ''Richelieu login completed''])))))))))))\<close>

text \<open>\<^verbatim>\<open>async function genericLogin(page, credentials)\<close>, lines 213-226.\<close>

definition genericLogin :: "playwright \<Rightarrow> credentials \<Rightarrow> unit proc" where
  \<open>genericLogin w c =
    andThen (emit (Enter ''genericLogin'')) (\<lambda>_.
    andThen (emit (Log [Str (''Navigating to login page: '' @ interp (loginUrl c))])) (\<lambda>_.
    andThen (call (Goto (optField (loginUrl c)) ''networkidle'' 30000) gl_goto w) (\<lambda>_.
    andThen (call (Fill ''input[type="email"], input[name="email"], input[name="username"]''
                     (optField (username c)) None) gl_fillUser w) (\<lambda>_.
    andThen (call (Fill ''input[type="password"], input[name="password"]''
                     (optField (password c)) None) gl_fillPass w) (\<lambda>_.
    andThen (call (Click
        ''button[type="submit"], button:has-text("Sign In"), button:has-text("Log In")'')
        gl_submit w) (\<lambda>_.
    call (WaitForTimeout 3000) gl_settle w))))))\<close>

section \<open>Scrapers\<close>

text \<open>
  \<^verbatim>\<open>page.evaluate(fn)\<close>: the host either throws or runs the page function on the
  document and returns its result.
\<close>

definition evaluateIn :: "playwright \<Rightarrow> (document \<Rightarrow> object) \<Rightarrow> object proc" where
  "evaluateIn w pageFunction =
    call Evaluate
      (\<lambda>h. case evaluate h of Inl e \<Rightarrow> Inl e | Inr doc \<Rightarrow> Inr (pageFunction doc)) w"

text \<open>\<^verbatim>\<open>async function scrapeRichelieu(page)\<close>, lines 229-326.\<close>

definition scrapeRichelieu :: "playwright \<Rightarrow> object proc" where
  "scrapeRichelieu w =
    andThen (emit (Log [Str ''Scraping Richelieu product...''])) (\<lambda>_.
    andThen (evaluateIn w richelieuPage) (\<lambda>data.
    andThen (emit (Log [Str ''Richelieu scrape complete:'',
                        Obj [(''name'', getProp data ''name''),
                             (''sku'', getProp data ''sku''),
                             (''price'', getProp data ''price'')]])) (\<lambda>_.
    andThen (if \<not> truthy (getProp data ''price'') \<or> \<not> truthy (getProp data ''sku'') then
               andThen (emit (Log [Str ''DEBUG - Missing data. HTML snippets:''])) (\<lambda>_.
               andThen (emit (Log [Str ''Price HTML:'',
                                   optProp (getProp data ''debug'') ''priceHTML''])) (\<lambda>_.
               emit (Log [Str ''SKU HTML:'', optProp (getProp data ''debug'') ''skuHTML''])))
             else ret ()) (\<lambda>_.
    ret data))))"

definition scrapeHomeDepot :: "playwright \<Rightarrow> object proc" where
  "scrapeHomeDepot w =
    andThen (emit (Log [Str ''Scraping Home Depot product...''])) (\<lambda>_.
    andThen (evaluateIn w homeDepotPage) (\<lambda>data.
    ret data))"

definition scrapeLowes :: "playwright \<Rightarrow> object proc" where
  "scrapeLowes w =
    andThen (emit (Log [Str ''Scraping Lowe's product...''])) (\<lambda>_.
    andThen (evaluateIn w lowesPage) (\<lambda>data.
    ret data))"

definition scrapeAmazon :: "playwright \<Rightarrow> object proc" where
  "scrapeAmazon w =
    andThen (emit (Log [Str ''Scraping Amazon product...''])) (\<lambda>_.
    andThen (evaluateIn w amazonPage) (\<lambda>data.
    ret data))"

definition scrapeGeneric :: "playwright \<Rightarrow> object proc" where
  "scrapeGeneric w =
    andThen (emit (Log [Str ''Using generic scraper...''])) (\<lambda>_.
    andThen (evaluateIn w genericPage) (\<lambda>data.
    ret data))"

section \<open>The scrape endpoint\<close>

text \<open>The dispatch of lines 73-77: which login flow, if any, the credentials select.\<close>

definition namesRichelieu :: "credentials \<Rightarrow> bool" where
  "namesRichelieu c =
    (case supplierName c of
       Some n \<Rightarrow> n \<noteq> [] \<and> str_includes (toLowerCase n) ''richelieu''
     | None \<Rightarrow> False)"

definition selectedLogin :: "playwright \<Rightarrow> credentials \<Rightarrow> unit proc" where
  "selectedLogin w c =
    (if namesRichelieu c then loginToRichelieu w c
     else if truthy (optField (loginUrl c)) then genericLogin w c
     else ret ())"

text \<open>Lines 69-83: login first if credentials are provided; a login error is caught.\<close>

definition loginStep :: "playwright \<Rightarrow> credentials option \<Rightarrow> unit proc" where
  "loginStep w creds =
    (case creds of
       None \<Rightarrow> ret ()
     | Some c \<Rightarrow>
        if truthy (optField (username c)) \<and> truthy (optField (password c)) then
          andThen (emit (Log [Str (''Logging into '' @ interp (supplierName c) @ ''...'')])) (\<lambda>_.
          tryCatch
            (andThen (selectedLogin w c) (\<lambda>_.
             emit (Log [Str ''Login complete, now navigating to product page...''])))
            (\<lambda>loginError. emit (LogError [Str ''Login failed:'', Err (message loginError)])))
        else ret ())"

text \<open>The \<^verbatim>\<open>switch (supplierName)\<close> of lines 100-115.\<close>

definition scrapeBy :: "string \<Rightarrow> playwright \<Rightarrow> object proc" where
  "scrapeBy name w =
    (if name = ''Richelieu'' then scrapeRichelieu w
     else if name = ''Home Depot'' then scrapeHomeDepot w
     else if name = ''Lowe's'' then scrapeLowes w
     else if name = ''Amazon'' then scrapeAmazon w
     else scrapeGeneric w)"

text \<open>The body of the \<^verbatim>\<open>try\<close> block, lines 47-137.\<close>

definition scrapeAttempt :: "playwright \<Rightarrow> string \<Rightarrow> credentials option \<Rightarrow> unit proc" where
  "scrapeAttempt w u creds =
    andThen (emit (Log [Str (''Starting scrape for: '' @ u)])) (\<lambda>_.
    andThen (call Launch launch w) (\<lambda>_.
    andThen (call NewContext newContext w) (\<lambda>_.
    andThen (call NewPage newPage w) (\<lambda>_.
    andThen (loginStep w creds) (\<lambda>_.
    andThen (emit (Log [Str (''Navigating to product: '' @ u)])) (\<lambda>_.
    andThen (call (Goto (Str u) ''domcontentloaded'' 30000) goto w) (\<lambda>_.
    andThen (call (WaitForTimeout 3000) settle w) (\<lambda>_.
    andThen (emit (Log [Str (''Detected supplier: '' @ detectSupplier u)])) (\<lambda>_.
    andThen (scrapeBy (detectSupplier u) w) (\<lambda>productData.
    andThen (call Screenshot screenshot w) (\<lambda>shot.
    andThen (call Close close_try w) (\<lambda>_.
    andThen (emit (Log [Str ''Scrape successful:'',
                        Obj [(''name'', getProp productData ''name''),
                             (''sku'', getProp productData ''sku''),
                             (''price'', getProp productData ''price'')]])) (\<lambda>_.
    emit (Respond 200 (Obj [(''success'', Bool True),
                            (''data'', Obj productData),
                            (''screenshot'', Str shot),
                            (''supplierName'', Str (detectSupplier u))])))))))))))))))"

text \<open>
  \<^verbatim>\<open>if (browser) { ... }\<close>: the variable \<^verbatim>\<open>browser\<close> is assigned exactly when
  \<^verbatim>\<open>chromium.launch\<close> returned, which the trace so far records.
\<close>

definition whenBrowser :: "unit proc \<Rightarrow> unit proc" where
  "whenBrowser m pre = (if Call Launch None \<in> set pre then m pre else ret () pre)"

text \<open>The \<^verbatim>\<open>catch (error)\<close> block, lines 139-150.\<close>

definition scrapeFailed :: "playwright \<Rightarrow> jserror \<Rightarrow> unit proc" where
  "scrapeFailed w error =
    andThen (emit (LogError [Str ''Scraping error:'', Err (message error)])) (\<lambda>_.
    andThen (whenBrowser (call Close close_catch w)) (\<lambda>_.
    emit (Respond 500 (Obj [(''error'', Str ''Failed to scrape product''),
                            (''details'', Str (message error))]))))"

text \<open>The first statement of the handler, lines 19-27.\<close>

definition receivedLog :: "request \<Rightarrow> event" where
  "receivedLog req =
    Log [Str ''Received scrape request:'',
         Obj [(''url'', optField (url req)),
              (''hasCredentials'', Bool (credentials req \<noteq> None)),
              (''supplierName'',
                 (case credentials req of Some c \<Rightarrow> optField (supplierName c) | None \<Rightarrow> Undefined)),
              (''username'',
                 (case credentials req of Some c \<Rightarrow> optField (username c) | None \<Rightarrow> Undefined)),
              (''hasPassword'',
                 Bool (case credentials req of
                         Some c \<Rightarrow> truthy (optField (password c)) | None \<Rightarrow> False)),
              (''passwordLength'',
                 Num (case credentials req of
                        Some c \<Rightarrow> (case password c of Some p \<Rightarrow> length p | None \<Rightarrow> 0)
                      | None \<Rightarrow> 0)),
              (''loginUrl'',
                 (case credentials req of Some c \<Rightarrow> optField (loginUrl c) | None \<Rightarrow> Undefined))]]"

text \<open>Lines 37-40: the bearer token check.\<close>

definition expectedToken :: "config \<Rightarrow> string" where
  "expectedToken cfg =
    (if truthy (optField (secret cfg))
     then (case secret cfg of Some s \<Rightarrow> s | None \<Rightarrow> [])
     else ''default-secret'')"

definition authorized :: "config \<Rightarrow> request \<Rightarrow> bool" where
  "authorized cfg req =
    (\<not> (\<not> truthy (optField (authorization req))
        \<or> authorization req \<noteq> Some (''Bearer '' @ expectedToken cfg)))"

text \<open>
  \<^verbatim>\<open>app.post('/api/scrape', async (req, res) => ...)\<close>, lines 18-151.  \<open>Inl e\<close> as
  the result: the handler's promise is rejected with \<open>e\<close>.
\<close>

definition scrapeHandler :: "config \<Rightarrow> playwright \<Rightarrow> request \<Rightarrow> unit proc" where
  "scrapeHandler cfg w req =
    andThen (emit (receivedLog req)) (\<lambda>_.
    if \<not> truthy (optField (url req)) then
      emit (Respond 400 (Obj [(''error'', Str ''URL is required'')]))
    else if \<not> authorized cfg req then
      andThen (emit (LogError [Str ''Unauthorized request - invalid token''])) (\<lambda>_.
      emit (Respond 401 (Obj [(''error'', Str ''Unauthorized'')])))
    else
      tryCatch
        (scrapeAttempt w (case url req of Some u \<Rightarrow> u | None \<Rightarrow> []) (credentials req))
        (\<lambda>error. scrapeFailed w error))"

section \<open>Reading a trace\<close>

text \<open>The log output, the responses sent, the functions entered.\<close>

fun isLog :: "event \<Rightarrow> bool" where
  "isLog (Log args) = True"
| "isLog (LogError args) = True"
| "isLog ev = False"

definition logs :: "event list \<Rightarrow> event list" where
  "logs tr = filter isLog tr"

fun isRespond :: "event \<Rightarrow> bool" where
  "isRespond (Respond status body) = True"
| "isRespond ev = False"

definition responses :: "event list \<Rightarrow> event list" where
  "responses tr = filter isRespond tr"

fun isEnter :: "event \<Rightarrow> bool" where
  "isEnter (Enter f) = True"
| "isEnter ev = False"

definition entered :: "event list \<Rightarrow> event list" where
  "entered tr = filter isEnter tr"

text \<open>
  The life of the browser session: launches, releases (calls of \<^verbatim>\<open>browser.close\<close>
  that returned) and responses, in order.
\<close>

fun isLifecycle :: "event \<Rightarrow> bool" where
  "isLifecycle (Call Launch r) = True"
| "isLifecycle (Call Close None) = True"
| "isLifecycle (Respond status body) = True"
| "isLifecycle ev = False"

definition lifecycle :: "event list \<Rightarrow> event list" where
  "lifecycle tr = filter isLifecycle tr"

text \<open>Everything but the log output: host calls, function entries and responses.\<close>

definition actions :: "event list \<Rightarrow> event list" where
  "actions tr = filter (\<lambda>ev. \<not> isLog ev) tr"

text \<open>
  Two notions for reasoning about procedures: every event a procedure adds satisfies
  \<open>P\<close>; and two procedures do the same, log output aside, whenever the traces they
  start from are the same, log output aside.
\<close>

definition produces :: "(event \<Rightarrow> bool) \<Rightarrow> 'a proc \<Rightarrow> bool" where
  "produces P m = (\<forall>pre. list_all P (fst (m pre)))"

definition sameActions :: "'a proc \<Rightarrow> 'a proc \<Rightarrow> bool" where
  "sameActions m m' =
    (\<forall>pre pre'. actions pre = actions pre' \<longrightarrow>
       actions (fst (m pre)) = actions (fst (m' pre')) \<and> snd (m pre) = snd (m' pre'))"





section \<open>Sample inputs\<close>

definition sampleElement :: "string \<Rightarrow> element" where
  "sampleElement t = \<lparr>textContent = t, outerHTML = ''<li>'' @ t @ ''</li>'', src = None\<rparr>"

definition emptyPage :: document where
  "emptyPage = \<lparr>querySelectorAll = (\<lambda>selector. []), href = ''https://shop.example/p/1''\<rparr>"

definition pricePage :: document where
  "pricePage =
    \<lparr>querySelectorAll = (\<lambda>selector.
        if selector = ''.pms-PriceBlock li''
        then [sampleElement '' Your price: $8.10 '', sampleElement '' MSRP: $12.50 '',
              sampleElement ''List $13.00'']
        else if selector = ''.list-price, .price-was, .msrp-price, .retail-price''
        then [sampleElement ''$99.00'']
        else []),
      href = ''https://www.richelieu.com/ca/en/product/12345''\<rparr>"

definition fallbackPage :: document where
  "fallbackPage =
    \<lparr>querySelectorAll = (\<lambda>selector.
        if selector = ''.pms-PriceBlock li''
        then [sampleElement '' Your price: $8.10 '']
        else if selector = ''.list-price, .price-was, .msrp-price, .retail-price''
        then [sampleElement '' $99.00 '']
        else []),
      href = ''https://www.richelieu.com/ca/en/product/12345''\<rparr>"

text \<open>Outcome tables: every call returns; one call throws.\<close>

definition calmHost :: host where
  "calmHost =
    \<lparr>launch = Inr (), newContext = Inr (), newPage = Inr (),
     rl_goto = Inr (), rl_settle = Inr (), rl_signInButton = Inr False,
     rl_signInClick = Inr (), rl_signInSettle = Inr (), rl_waitEmail = Inr (),
     rl_fillUser = Inr (), rl_fillPass = Inr (), rl_submit = Inr (), rl_finalSettle = Inr (),
     gl_goto = Inr (), gl_fillUser = Inr (), gl_fillPass = Inr (), gl_submit = Inr (),
     gl_settle = Inr (),
     goto = Inr (), settle = Inr (), evaluate = Inr emptyPage, screenshot = Inr ''/9j/4AAQ'',
     close_try = Inr (), close_catch = Inr ()\<rparr>"

definition timeoutHost :: host where
  "timeoutHost = calmHost\<lparr>goto := Inl (JsError ''page.goto: Timeout 30000ms exceeded.'')\<rparr>"

definition stuckHost :: host where
  "stuckHost = timeoutHost\<lparr>close_catch := Inl (JsError ''browser.close: Target closed'')\<rparr>"

text \<open>A host that answers every call from the same table, whatever came before.\<close>

definition always :: "host \<Rightarrow> playwright" where
  "always h calls = h"



definition sampleConfig :: config where
  "sampleConfig = \<lparr>secret = Some ''s3cr3t''\<rparr>"


definition plainCredentials :: credentials where
  "plainCredentials =
    \<lparr>supplierName = Some ''Acme Hardware'', username = Some ''bob@example.com'',
     password = Some ''pa55word'', loginUrl = None\<rparr>"

definition sampleUrl :: string where
  "sampleUrl = ''https://www.richelieu.com/ca/en/product/12345''"

definition sampleRequest :: request where
  "sampleRequest =
    \<lparr>url = Some sampleUrl, credentials = None, authorization = Some ''Bearer s3cr3t''\<rparr>"

section \<open>Notions of the specification\<close>

text \<open>
  A price-block line item mentions the MSRP when its text contains "msrp", "list" or
  "retail", case-insensitively.
\<close>

definition isMsrpItem :: "element \<Rightarrow> bool" where
  "isMsrpItem item =
    (contains (toLowerCase (textContent item)) ''msrp''
     \<or> contains (toLowerCase (textContent item)) ''list''
     \<or> contains (toLowerCase (textContent item)) ''retail'')"

text \<open>
  The optional fields of a product record, and what it is for one to be empty or
  absent.  A page has none of the elements a strategy expects when none of the
  strategy's selectors matches anything.
\<close>

definition optionalFields :: "string list" where
  "optionalFields = [''name'', ''sku'', ''price'', ''msrp'', ''description'', ''brand'', ''imageUrl'']"

definition emptyField :: "object \<Rightarrow> string \<Rightarrow> bool" where
  "emptyField data k =
    (map_of data k = None \<or> map_of data k = Some Null \<or> map_of data k = Some Undefined)"

definition selectorsOf :: "string \<Rightarrow> string list" where
  "selectorsOf name =
    (if name = ''Richelieu'' then richelieuSelectors
     else if name = ''Home Depot'' then homeDepotSelectors
     else if name = ''Lowe's'' then lowesSelectors
     else if name = ''Amazon'' then amazonSelectors
     else genericSelectors)"

definition noneExpected :: "string \<Rightarrow> document \<Rightarrow> bool" where
  "noneExpected name doc = list_all (\<lambda>selector. querySelectorAll doc selector = []) (selectorsOf name)"

section \<open>Facts about the string functions\<close>

lemma startsWith_iff: "startsWith s t \<longleftrightarrow> (\<exists>q. s = t @ q)"
  by (induction s t rule: startsWith.induct) auto

lemma str_includes_iff: "str_includes s t \<longleftrightarrow> contains s t"
proof (induction s)
  case Nil
  show ?case by (auto simp: contains_def)
next
  case (Cons a s)
  show ?case
  proof
    assume "str_includes (a # s) t"
    then consider "startsWith (a # s) t" | "str_includes s t" by auto
    then show "contains (a # s) t"
    proof cases
      case 1
      then obtain q where "a # s = t @ q" by (auto simp: startsWith_iff)
      then have "a # s = [] @ t @ q" by simp
      then show ?thesis unfolding contains_def by blast
    next
      case 2
      then obtain p q where "s = p @ t @ q" using Cons.IH by (auto simp: contains_def)
      then have "a # s = (a # p) @ t @ q" by simp
      then show ?thesis unfolding contains_def by blast
    qed
  next
    assume "contains (a # s) t"
    then obtain p q where pq: "a # s = p @ t @ q" by (auto simp: contains_def)
    show "str_includes (a # s) t"
    proof (cases p)
      case Nil
      with pq have "a # s = t @ q" by simp
      then have "startsWith (a # s) t" unfolding startsWith_iff by blast
      then show ?thesis by simp
    next
      case (Cons b p')
      with pq have "s = p' @ t @ q" by simp
      then have "contains s t" unfolding contains_def by blast
      then show ?thesis using Cons.IH by simp
    qed
  qed
qed

lemma contains_set: "contains s t \<Longrightarrow> set t \<subseteq> set s"
  by (auto simp: contains_def)

lemma isSpace_not_upper: "isSpace c \<Longrightarrow> toLowerChar c = c"
  by (auto simp: isSpace_def toLowerChar_def isUpper_def Let_def)

lemma all_dropWhile: "(\<forall>x \<in> set (dropWhile P s). P x) \<longleftrightarrow> (\<forall>x \<in> set s. P x)"
  by (induction s) auto

lemma trim_eq_Nil: "trim s = [] \<longleftrightarrow> (\<forall>c \<in> set s. isSpace c)"
  by (simp add: trim_def dropWhile_eq_Nil_conv all_dropWhile)

lemma lower_letter_visible:
  assumes "x \<in> set (toLowerCase s)" "\<not> isSpace x"
  shows "trim s \<noteq> []"
proof -
  from assms obtain c where c: "c \<in> set s" "toLowerChar c = x" by (auto simp: toLowerCase_def)
  then have "\<not> isSpace c" using assms(2) isSpace_not_upper by force
  with c show ?thesis by (auto simp: trim_eq_Nil)
qed

lemma isMsrpItem_trim: "isMsrpItem item \<Longrightarrow> trim (textContent item) \<noteq> []"
proof -
  assume "isMsrpItem item"
  then consider "CHR ''m'' \<in> set (toLowerCase (textContent item))"
    | "CHR ''l'' \<in> set (toLowerCase (textContent item))"
    | "CHR ''r'' \<in> set (toLowerCase (textContent item))"
    unfolding isMsrpItem_def by (auto dest!: contains_set)
  then show ?thesis
  proof cases
    case 1
    then show ?thesis by (rule lower_letter_visible) (simp add: isSpace_def)
  next
    case 2
    then show ?thesis by (rule lower_letter_visible) (simp add: isSpace_def)
  next
    case 3
    then show ?thesis by (rule lower_letter_visible) (simp add: isSpace_def)
  qed
qed

lemma scanPriceBlock_find:
  "scanPriceBlock items =
    (case find isMsrpItem items of Some item \<Rightarrow> Str (trim (textContent item)) | None \<Rightarrow> Null)"
  by (induction items) (simp_all add: isMsrpItem_def str_includes_iff Let_def)

section \<open>Facts about procedures\<close>

lemma fst_ret [simp]: "fst (ret x pre) = []"
  by (simp add: ret_def)

lemma snd_ret [simp]: "snd (ret x pre) = Inr x"
  by (simp add: ret_def)

lemma fst_emit [simp]: "fst (emit ev pre) = [ev]"
  by (simp add: emit_def)

lemma snd_emit [simp]: "snd (emit ev pre) = Inr ()"
  by (simp add: emit_def)

lemma fst_call [simp]:
  "fst (call c site w pre) =
    [Call c (case site (w (hostcalls pre @ [c])) of Inl e \<Rightarrow> Some e | Inr x \<Rightarrow> None)]"
  by (simp add: call_def Let_def)

lemma snd_call [simp]: "snd (call c site w pre) = site (w (hostcalls pre @ [c]))"
  by (simp add: call_def Let_def)

lemma fst_andThen [simp]:
  "fst (andThen m f pre) =
    fst (m pre) @ (case snd (m pre) of Inl e \<Rightarrow> [] | Inr x \<Rightarrow> fst (f x (pre @ fst (m pre))))"
  by (cases "m pre") (simp add: andThen_def split: sum.splits prod.splits)

lemma snd_andThen [simp]:
  "snd (andThen m f pre) =
    (case snd (m pre) of Inl e \<Rightarrow> Inl e | Inr x \<Rightarrow> snd (f x (pre @ fst (m pre))))"
  by (cases "m pre") (simp add: andThen_def split: sum.splits prod.splits)

lemma fst_tryCatch [simp]:
  "fst (tryCatch m handler pre) =
    fst (m pre) @ (case snd (m pre) of Inl e \<Rightarrow> fst (handler e (pre @ fst (m pre))) | Inr x \<Rightarrow> [])"
  by (cases "m pre") (simp add: tryCatch_def split: sum.splits prod.splits)

lemma snd_tryCatch [simp]:
  "snd (tryCatch m handler pre) =
    (case snd (m pre) of Inl e \<Rightarrow> snd (handler e (pre @ fst (m pre))) | Inr x \<Rightarrow> Inr x)"
  by (cases "m pre") (simp add: tryCatch_def split: sum.splits prod.splits)

lemma whenBrowser_launched [simp]: "Call Launch None \<in> set pre \<Longrightarrow> whenBrowser m pre = m pre"
  by (simp add: whenBrowser_def)

lemma whenBrowser_unlaunched [simp]:
  "Call Launch None \<notin> set pre \<Longrightarrow> whenBrowser m pre = ret () pre"
  by (simp add: whenBrowser_def)

lemma hostcalls_simps [simp]:
  "hostcalls [] = []"
  "hostcalls (ev # tr) = hostcallOf ev @ hostcalls tr"
  "hostcalls (tr @ tr') = hostcalls tr @ hostcalls tr'"
  by (simp_all add: hostcalls_def)

lemma lifecycle_simps [simp]:
  "lifecycle [] = []"
  "lifecycle (ev # tr) = (if isLifecycle ev then ev # lifecycle tr else lifecycle tr)"
  "lifecycle (tr @ tr') = lifecycle tr @ lifecycle tr'"
  by (simp_all add: lifecycle_def)

lemma responses_simps [simp]:
  "responses [] = []"
  "responses (ev # tr) = (if isRespond ev then ev # responses tr else responses tr)"
  "responses (tr @ tr') = responses tr @ responses tr'"
  by (simp_all add: responses_def)

lemma entered_simps [simp]:
  "entered [] = []"
  "entered (ev # tr) = (if isEnter ev then ev # entered tr else entered tr)"
  "entered (tr @ tr') = entered tr @ entered tr'"
  by (simp_all add: entered_def)

lemma logs_simps [simp]:
  "logs [] = []"
  "logs (ev # tr) = (if isLog ev then ev # logs tr else logs tr)"
  "logs (tr @ tr') = logs tr @ logs tr'"
  by (simp_all add: logs_def)

lemma actions_simps [simp]:
  "actions [] = []"
  "actions (ev # tr) = (if isLog ev then actions tr else ev # actions tr)"
  "actions (tr @ tr') = actions tr @ actions tr'"
  by (simp_all add: actions_def)

lemma produces_ret: "produces P (ret x)"
  by (simp add: produces_def)

lemma produces_emit: "P ev \<Longrightarrow> produces P (emit ev)"
  by (simp add: produces_def)

lemma produces_call: "(\<And>r. P (Call c r)) \<Longrightarrow> produces P (call c site w)"
  by (simp add: produces_def)

lemma produces_andThen:
  "produces P m \<Longrightarrow> (\<And>x. produces P (f x)) \<Longrightarrow> produces P (andThen m f)"
  by (simp add: produces_def split: sum.splits)

lemma produces_tryCatch:
  "produces P m \<Longrightarrow> (\<And>e. produces P (handler e)) \<Longrightarrow> produces P (tryCatch m handler)"
  by (simp add: produces_def split: sum.splits)

lemma produces_if:
  "(b \<Longrightarrow> produces P m) \<Longrightarrow> (\<not> b \<Longrightarrow> produces P m') \<Longrightarrow> produces P (if b then m else m')"
  by simp

lemma produces_option:
  "(x = None \<Longrightarrow> produces P m) \<Longrightarrow> (\<And>y. x = Some y \<Longrightarrow> produces P (f y))
    \<Longrightarrow> produces P (case x of None \<Rightarrow> m | Some y \<Rightarrow> f y)"
  by (cases x) simp_all

lemma produces_whenBrowser: "produces P m \<Longrightarrow> produces P (whenBrowser m)"
  by (simp add: produces_def whenBrowser_def)

lemma produces_mono: "produces P m \<Longrightarrow> (\<And>ev. P ev \<Longrightarrow> Q ev) \<Longrightarrow> produces Q m"
  by (auto simp: produces_def list_all_iff)

lemmas produces_intros =
  produces_ret produces_emit produces_call produces_andThen produces_tryCatch produces_if
  produces_whenBrowser

lemma produces_filter: "produces (\<lambda>ev. \<not> P ev) m \<Longrightarrow> filter P (fst (m pre)) = []"
  by (simp add: produces_def filter_empty_conv list_all_iff)

section \<open>Facts about the extraction strategies\<close>

lemma querySelector_none: "querySelectorAll doc s = [] \<Longrightarrow> querySelector doc s = None"
  by (simp add: querySelector_def)

lemma getTextContent_none: "querySelectorAll doc s = [] \<Longrightarrow> getTextContent doc s = Null"
  by (simp add: getTextContent_def querySelector_def)

lemma richelieu_empty:
  assumes "noneExpected ''Richelieu'' doc"
  shows "list_all (emptyField (richelieuPage doc)) optionalFields"
    and "list_all (\<lambda>k. map_of (richelieuPage doc) k = Some Null)
           [''name'', ''sku'', ''price'', ''imageUrl'']"
    and "map_of (richelieuPage doc) ''url'' = Some (Str (href doc))"
  using assms
  by (simp_all add: noneExpected_def selectorsOf_def richelieuSelectors_def richelieuPage_def
      richelieuMsrp_def Let_def getTextContent_none querySelector_none imageSrc_def
      optionalFields_def emptyField_def)

lemma homeDepot_empty:
  assumes "noneExpected ''Home Depot'' doc"
  shows "list_all (emptyField (homeDepotPage doc)) optionalFields"
    and "list_all (\<lambda>k. map_of (homeDepotPage doc) k = Some Null)
           [''name'', ''sku'', ''price'', ''imageUrl'']"
    and "map_of (homeDepotPage doc) ''url'' = Some (Str (href doc))"
  using assms
  by (simp_all add: noneExpected_def selectorsOf_def homeDepotSelectors_def homeDepotPage_def
      Let_def getTextContent_none querySelector_none imageSrc_def
      optionalFields_def emptyField_def)

lemma lowes_empty:
  assumes "noneExpected ''Lowe's'' doc"
  shows "list_all (emptyField (lowesPage doc)) optionalFields"
    and "list_all (\<lambda>k. map_of (lowesPage doc) k = Some Null)
           [''name'', ''sku'', ''price'', ''imageUrl'']"
    and "map_of (lowesPage doc) ''url'' = Some (Str (href doc))"
  using assms
  by (simp_all add: noneExpected_def selectorsOf_def lowesSelectors_def lowesPage_def
      Let_def getTextContent_none querySelector_none imageSrc_def
      optionalFields_def emptyField_def)

lemma amazon_empty:
  assumes "noneExpected ''Amazon'' doc"
  shows "list_all (emptyField (amazonPage doc)) optionalFields"
    and "list_all (\<lambda>k. map_of (amazonPage doc) k = Some Null)
           [''name'', ''sku'', ''price'', ''imageUrl'']"
    and "map_of (amazonPage doc) ''url'' = Some (Str (href doc))"
  using assms
  by (simp_all add: noneExpected_def selectorsOf_def amazonSelectors_def amazonPage_def
      Let_def getTextContent_none querySelector_none imageSrc_def
      optionalFields_def emptyField_def)

lemma generic_empty:
  assumes "name \<notin> {''Richelieu'', ''Home Depot'', ''Lowe's'', ''Amazon''}"
    and "noneExpected name doc"
  shows "list_all (emptyField (genericPage doc)) optionalFields"
    and "list_all (\<lambda>k. map_of (genericPage doc) k = Some Null)
           [''name'', ''sku'', ''price'', ''imageUrl'']"
    and "map_of (genericPage doc) ''url'' = Some (Str (href doc))"
  using assms
  by (simp_all add: noneExpected_def selectorsOf_def genericSelectors_def genericPage_def
      Let_def getTextContent_none querySelector_none imageSrc_def
      optionalFields_def emptyField_def)

lemma scrapeBy_returns:
  assumes "evaluate (w (hostcalls pre @ [Evaluate])) = Inr doc"
  shows "snd (scrapeBy name w pre) =
     Inr (if name = ''Richelieu'' then richelieuPage doc
          else if name = ''Home Depot'' then homeDepotPage doc
          else if name = ''Lowe's'' then lowesPage doc
          else if name = ''Amazon'' then amazonPage doc
          else genericPage doc)"
  using assms
  by (simp add: scrapeBy_def scrapeRichelieu_def scrapeHomeDepot_def scrapeLowes_def
      scrapeAmazon_def scrapeGeneric_def evaluateIn_def)

lemma pricePage_find: "find isMsrpItem (querySelectorAll pricePage ''.pms-PriceBlock li'')
     = Some (sampleElement '' MSRP: $12.50 '')"
  unfolding isMsrpItem_def str_includes_iff [symmetric] by code_simp

lemma fallbackPage_find: "find isMsrpItem (querySelectorAll fallbackPage ''.pms-PriceBlock li'') = None"
  unfolding isMsrpItem_def str_includes_iff [symmetric] by code_simp

section \<open>Facts about the endpoint\<close>

lemma quiet_loginToRichelieu: "produces (\<lambda>ev. \<not> isLifecycle ev) (loginToRichelieu w c)"
  unfolding loginToRichelieu_def by (intro produces_intros) simp_all

lemma quiet_genericLogin: "produces (\<lambda>ev. \<not> isLifecycle ev) (genericLogin w c)"
  unfolding genericLogin_def by (intro produces_intros) simp_all

lemma quiet_selectedLogin: "produces (\<lambda>ev. \<not> isLifecycle ev) (selectedLogin w c)"
  unfolding selectedLogin_def
  by (intro produces_if quiet_loginToRichelieu quiet_genericLogin produces_ret)

lemma quiet_loginStep: "produces (\<lambda>ev. \<not> isLifecycle ev) (loginStep w creds)"
  unfolding loginStep_def
  by (intro produces_option produces_intros quiet_selectedLogin) simp_all

lemma produces_scrapeBy:
  assumes "\<And>args. P (Log args)" and "\<And>r. P (Call Evaluate r)"
  shows "produces P (scrapeBy name w)"
  unfolding scrapeBy_def scrapeRichelieu_def scrapeHomeDepot_def scrapeLowes_def
    scrapeAmazon_def scrapeGeneric_def evaluateIn_def
  by (intro produces_intros assms)

lemma lifecycle_loginStep [simp]: "lifecycle (fst (loginStep w creds pre)) = []"
  unfolding lifecycle_def by (rule produces_filter) (simp add: quiet_loginStep)

lemma lifecycle_scrapeBy [simp]: "lifecycle (fst (scrapeBy name w pre)) = []"
  unfolding lifecycle_def by (rule produces_filter) (simp add: produces_scrapeBy)

lemma not_respond_if_quiet: "\<not> isLifecycle ev \<Longrightarrow> \<not> isRespond ev"
  by (cases ev) simp_all

lemma responses_loginStep [simp]: "responses (fst (loginStep w creds pre)) = []"
  unfolding responses_def
  by (rule produces_filter, rule produces_mono [OF quiet_loginStep]) (rule not_respond_if_quiet)

lemma responses_scrapeBy [simp]: "responses (fst (scrapeBy name w pre)) = []"
  unfolding responses_def by (rule produces_filter) (simp add: produces_scrapeBy)

lemma loginStep_returns [simp]: "snd (loginStep w creds pre) = Inr ()"
  by (simp add: loginStep_def split: sum.splits option.splits)

lemma no_launch_in_loginStep [simp]: "Call Launch None \<notin> set (fst (loginStep w creds pre))"
proof
  assume "Call Launch None \<in> set (fst (loginStep w creds pre))"
  moreover have "list_all (\<lambda>ev. \<not> isLifecycle ev) (fst (loginStep w creds pre))"
    using quiet_loginStep [of w creds] by (simp add: produces_def)
  ultimately have "\<not> isLifecycle (Call Launch None)"
    unfolding list_all_iff by blast
  then show False by simp
qed

lemma hostcallOf_receivedLog [simp]: "hostcallOf (receivedLog req) = []"
  by (simp add: receivedLog_def)

lemma receivedLog_kinds [simp]:
  "isLog (receivedLog req)" "\<not> isRespond (receivedLog req)" "\<not> isLifecycle (receivedLog req)"
  "\<not> isEnter (receivedLog req)" "receivedLog req \<noteq> Call c r"
  by (simp_all add: receivedLog_def)

lemma sample_reaches_session:
  "url sampleRequest = Some sampleUrl" "sampleUrl \<noteq> []" "authorized sampleConfig sampleRequest"
  by (simp_all add: sampleRequest_def sampleUrl_def sampleConfig_def authorized_def
      expectedToken_def)

lemma sample_anonymous: "credentials sampleRequest = None"
  by (simp add: sampleRequest_def)

lemma lifecycle_failed_attempt:
  assumes "launch (w (hostcalls pre @ [Launch])) = Inr ()"
    and "snd (scrapeAttempt w u creds pre) = Inl e"
  shows "lifecycle (fst (scrapeAttempt w u creds pre)) = [Call Launch None]"
  using assms
  by (simp add: scrapeAttempt_def split: sum.splits)

lemma lifecycle_finished_attempt:
  assumes "snd (scrapeAttempt w u creds pre) = Inr ()"
  shows "\<exists>body. lifecycle (fst (scrapeAttempt w u creds pre))
           = [Call Launch None, Call Close None, Respond 200 body]"
  using assms
  by (simp add: scrapeAttempt_def split: sum.splits)

lemma attempt_launched:
  assumes "launch (w (hostcalls pre @ [Launch])) = Inr ()"
  shows "Call Launch None \<in> set (fst (scrapeAttempt w u creds pre))"
  using assms by (simp add: scrapeAttempt_def)

lemma failed_attempt_no_response:
  "snd (scrapeAttempt w u creds pre) = Inl e \<Longrightarrow> responses (fst (scrapeAttempt w u creds pre)) = []"
  by (simp add: scrapeAttempt_def split: sum.splits)

lemma fst_scrapeFailed:
  "fst (scrapeFailed w error pre) =
    LogError [Str ''Scraping error:'', Err (message error)]
    # (if Call Launch None \<in> set pre
       then Call Close (case close_catch (w (hostcalls pre @ [Close])) of
                          Inl e \<Rightarrow> Some e | Inr x \<Rightarrow> None)
            # (case close_catch (w (hostcalls pre @ [Close])) of
                 Inl e \<Rightarrow> []
               | Inr x \<Rightarrow> [Respond 500 (Obj [(''error'', Str ''Failed to scrape product''),
                                             (''details'', Str (message error))])])
       else [Respond 500 (Obj [(''error'', Str ''Failed to scrape product''),
                               (''details'', Str (message error))])])"
  by (simp add: scrapeFailed_def whenBrowser_def split: sum.splits)

lemma snd_scrapeFailed:
  "snd (scrapeFailed w error pre) =
    (if Call Launch None \<in> set pre then close_catch (w (hostcalls pre @ [Close])) else Inr ())"
  by (simp add: scrapeFailed_def whenBrowser_def split: sum.splits)

lemma run_reached:
  assumes "url req = Some u" and "u \<noteq> []" and "authorized cfg req"
  shows "fst (run (scrapeHandler cfg w req)) =
      receivedLog req # fst (scrapeAttempt w u (credentials req) [receivedLog req])
      @ (case snd (scrapeAttempt w u (credentials req) [receivedLog req]) of
           Inl e \<Rightarrow> fst (scrapeFailed w e
                      (receivedLog req # fst (scrapeAttempt w u (credentials req) [receivedLog req])))
         | Inr x \<Rightarrow> [])"
    and "snd (run (scrapeHandler cfg w req)) =
      (case snd (scrapeAttempt w u (credentials req) [receivedLog req]) of
         Inl e \<Rightarrow> snd (scrapeFailed w e
                    (receivedLog req # fst (scrapeAttempt w u (credentials req) [receivedLog req])))
       | Inr x \<Rightarrow> Inr x)"
  using assms by (simp_all add: run_def scrapeHandler_def split: sum.splits)

lemma noEnter_scrapeHandler:
  assumes "produces (\<lambda>ev. \<not> isEnter ev) (loginStep w (credentials req))"
  shows "entered (fst (run (scrapeHandler cfg w req))) = []"
proof -
  have "produces (\<lambda>ev. \<not> isEnter ev) (scrapeHandler cfg w req)"
    unfolding scrapeHandler_def scrapeAttempt_def scrapeFailed_def
    by (intro produces_intros produces_scrapeBy assms) simp_all
  then show ?thesis
    unfolding entered_def run_def by (rule produces_filter)
qed

lemma scrapeAttempt_reaches_navigation:
  assumes "launch (w (hostcalls pre @ [Launch])) = Inr ()"
    and "newContext (w (hostcalls pre @ [Launch, NewContext])) = Inr ()"
    and "newPage (w (hostcalls pre @ [Launch, NewContext, NewPage])) = Inr ()"
  shows "\<exists>r rest. fst (scrapeAttempt w u creds pre) =
      [Log [Str (''Starting scrape for: '' @ u)], Call Launch None, Call NewContext None,
       Call NewPage None]
      @ fst (loginStep w creds
               (pre @ [Log [Str (''Starting scrape for: '' @ u)], Call Launch None,
                       Call NewContext None, Call NewPage None]))
      @ [Log [Str (''Navigating to product: '' @ u)],
         Call (Goto (Str u) ''domcontentloaded'' 30000) r]
      @ rest"
  using assms by (simp add: scrapeAttempt_def)

lemma hostcalls_reach_navigation:
  assumes "url req = Some u" and "u \<noteq> []" and "authorized cfg req"
    and "launch (w [Launch]) = Inr ()" and "newContext (w [Launch, NewContext]) = Inr ()"
    and "newPage (w [Launch, NewContext, NewPage]) = Inr ()"
    and "\<And>pre. hostcalls (fst (loginStep w (credentials req) pre)) = []"
  shows "\<exists>rest. hostcalls (fst (run (scrapeHandler cfg w req))) =
      Launch # NewContext # NewPage # Goto (Str u) ''domcontentloaded'' 30000 # rest"
proof -
  obtain r rest where "fst (scrapeAttempt w u (credentials req) [receivedLog req]) =
      [Log [Str (''Starting scrape for: '' @ u)], Call Launch None, Call NewContext None,
       Call NewPage None]
      @ fst (loginStep w (credentials req)
               ([receivedLog req] @ [Log [Str (''Starting scrape for: '' @ u)], Call Launch None,
                       Call NewContext None, Call NewPage None]))
      @ [Log [Str (''Navigating to product: '' @ u)],
         Call (Goto (Str u) ''domcontentloaded'' 30000) r]
      @ rest"
    using scrapeAttempt_reaches_navigation
      [where w = w and pre = "[receivedLog req]" and u = u and creds = "credentials req"]
      assms(4-6) by fastforce
  then show ?thesis
    by (simp add: run_reached(1) [OF assms(1-3)] assms(7))
qed






lemma plainCredentials_unnamed:
  "\<not> (\<exists>n. supplierName plainCredentials = Some n \<and> contains (toLowerCase n) ''richelieu'')"
proof -
  have "\<not> str_includes (toLowerCase ''Acme Hardware'') ''richelieu''"
    by code_simp
  then show ?thesis
    by (simp add: plainCredentials_def str_includes_iff)
qed

lemma namesRichelieu_iff:
  "namesRichelieu c \<longleftrightarrow> (\<exists>n. supplierName c = Some n \<and> contains (toLowerCase n) ''richelieu'')"
proof -
  have "\<not> contains [] ''richelieu''"
    by (simp add: str_includes_iff [symmetric])
  then show ?thesis
    by (cases "supplierName c") (auto simp: namesRichelieu_def str_includes_iff toLowerCase_def)
qed


lemma hostcalls_actions: "hostcalls (actions tr) = hostcalls tr"
proof (induction tr)
  case Nil
  show ?case by simp
next
  case (Cons ev tr)
  then show ?case by (cases ev) simp_all
qed

lemma same_hostcalls: "actions pre = actions pre' \<Longrightarrow> hostcalls pre = hostcalls pre'"
  by (metis hostcalls_actions)

lemma same_launched:
  assumes "actions pre = actions pre'"
  shows "Call Launch None \<in> set pre \<longleftrightarrow> Call Launch None \<in> set pre'"
proof -
  have "Call Launch None \<in> set pre \<longleftrightarrow> Call Launch None \<in> set (actions pre)"
    by (simp add: actions_def)
  also have "\<dots> \<longleftrightarrow> Call Launch None \<in> set (actions pre')"
    by (simp only: assms)
  also have "\<dots> \<longleftrightarrow> Call Launch None \<in> set pre'"
    by (simp add: actions_def)
  finally show ?thesis .
qed

lemma sameActions_ret: "sameActions (ret x) (ret x)"
  by (simp add: sameActions_def)

lemma sameActions_emit: "sameActions (emit ev) (emit ev)"
  by (simp add: sameActions_def)

lemma sameActions_logs: "isLog ev \<Longrightarrow> isLog ev' \<Longrightarrow> sameActions (emit ev) (emit ev')"
  by (simp add: sameActions_def)

lemma sameActions_call: "sameActions (call c site w) (call c site w)"
  unfolding sameActions_def
proof (intro allI impI)
  fix pre pre' :: "event list"
  assume "actions pre = actions pre'"
  then have "hostcalls pre = hostcalls pre'" by (rule same_hostcalls)
  then show "actions (fst (call c site w pre)) = actions (fst (call c site w pre'))
      \<and> snd (call c site w pre) = snd (call c site w pre')"
    by simp
qed

lemma sameActions_andThen:
  assumes "sameActions m m'" and "\<And>x. sameActions (f x) (f' x)"
  shows "sameActions (andThen m f) (andThen m' f')"
  unfolding sameActions_def
proof (intro allI impI)
  fix pre pre' :: "event list"
  assume pre: "actions pre = actions pre'"
  with assms(1) have m: "actions (fst (m pre)) = actions (fst (m' pre'))"
    "snd (m pre) = snd (m' pre')"
    by (simp_all add: sameActions_def)
  then have "actions (pre @ fst (m pre)) = actions (pre' @ fst (m' pre'))"
    using pre by simp
  with assms(2) have "actions (fst (f x (pre @ fst (m pre)))) = actions (fst (f' x (pre' @ fst (m' pre'))))"
    "snd (f x (pre @ fst (m pre))) = snd (f' x (pre' @ fst (m' pre')))" for x
    by (simp_all add: sameActions_def)
  with m show "actions (fst (andThen m f pre)) = actions (fst (andThen m' f' pre'))
      \<and> snd (andThen m f pre) = snd (andThen m' f' pre')"
    by (simp split: sum.splits)
qed

lemma sameActions_tryCatch:
  assumes "sameActions m m'" and "\<And>e. sameActions (g e) (g' e)"
  shows "sameActions (tryCatch m g) (tryCatch m' g')"
  unfolding sameActions_def
proof (intro allI impI)
  fix pre pre' :: "event list"
  assume pre: "actions pre = actions pre'"
  with assms(1) have m: "actions (fst (m pre)) = actions (fst (m' pre'))"
    "snd (m pre) = snd (m' pre')"
    by (simp_all add: sameActions_def)
  then have "actions (pre @ fst (m pre)) = actions (pre' @ fst (m' pre'))"
    using pre by simp
  with assms(2) have "actions (fst (g e (pre @ fst (m pre)))) = actions (fst (g' e (pre' @ fst (m' pre'))))"
    "snd (g e (pre @ fst (m pre))) = snd (g' e (pre' @ fst (m' pre')))" for e
    by (simp_all add: sameActions_def)
  with m show "actions (fst (tryCatch m g pre)) = actions (fst (tryCatch m' g' pre'))
      \<and> snd (tryCatch m g pre) = snd (tryCatch m' g' pre')"
    by (simp split: sum.splits)
qed

lemma sameActions_if:
  "(b \<Longrightarrow> sameActions m m') \<Longrightarrow> (\<not> b \<Longrightarrow> sameActions n n')
    \<Longrightarrow> sameActions (if b then m else n) (if b then m' else n')"
  by simp

lemma sameActions_whenBrowser:
  assumes "sameActions m m'"
  shows "sameActions (whenBrowser m) (whenBrowser m')"
  unfolding sameActions_def
proof (intro allI impI)
  fix pre pre' :: "event list"
  assume pre: "actions pre = actions pre'"
  with assms same_launched [OF pre]
  show "actions (fst (whenBrowser m pre)) = actions (fst (whenBrowser m' pre'))
      \<and> snd (whenBrowser m pre) = snd (whenBrowser m' pre')"
    by (simp add: whenBrowser_def sameActions_def)
qed

lemmas sameActions_intros =
  sameActions_ret sameActions_emit sameActions_call sameActions_andThen sameActions_tryCatch
  sameActions_if sameActions_whenBrowser

lemma sameActions_scrapeBy: "sameActions (scrapeBy name w) (scrapeBy name w)"
  unfolding scrapeBy_def scrapeRichelieu_def scrapeHomeDepot_def scrapeLowes_def
    scrapeAmazon_def scrapeGeneric_def evaluateIn_def
  by (intro sameActions_intros)

lemma sameActions_scrapeHandler:
  assumes "url req' = url req" and "authorization req' = authorization req"
    and "sameActions (loginStep w (credentials req)) (loginStep w (credentials req'))"
  shows "sameActions (scrapeHandler cfg w req) (scrapeHandler cfg w req')"
proof -
  have a: "authorized cfg req' = authorized cfg req"
    using assms(2) by (simp add: authorized_def)
  have received: "sameActions (emit (receivedLog req)) (emit (receivedLog req'))"
    by (rule sameActions_logs) simp_all
  show ?thesis
    unfolding scrapeHandler_def scrapeAttempt_def scrapeFailed_def a assms(1)
    by (intro sameActions_intros sameActions_scrapeBy received assms(3))
qed

lemma sameActions_run:
  "sameActions m m' \<Longrightarrow> actions (fst (run m)) = actions (fst (run m')) \<and> snd (run m) = snd (run m')"
  by (simp add: sameActions_def run_def)

subsection \<open>Runs that differ in a value typed into a form\<close>























section \<open>Runs on the sample hosts\<close>

lemma timeout_attempt:
  "scrapeAttempt (always timeoutHost) sampleUrl None [receivedLog sampleRequest] =
      ([Log [Str (''Starting scrape for: '' @ sampleUrl)], Call Launch None,
        Call NewContext None, Call NewPage None,
        Log [Str (''Navigating to product: '' @ sampleUrl)],
        Call (Goto (Str sampleUrl) ''domcontentloaded'' 30000)
          (Some (JsError ''page.goto: Timeout 30000ms exceeded.''))],
       Inl (JsError ''page.goto: Timeout 30000ms exceeded.''))"
  by (simp add: prod_eq_iff scrapeAttempt_def loginStep_def always_def timeoutHost_def
      calmHost_def)

lemma stuck_attempt:
  "scrapeAttempt (always stuckHost) sampleUrl None [receivedLog sampleRequest] =
      ([Log [Str (''Starting scrape for: '' @ sampleUrl)], Call Launch None,
        Call NewContext None, Call NewPage None,
        Log [Str (''Navigating to product: '' @ sampleUrl)],
        Call (Goto (Str sampleUrl) ''domcontentloaded'' 30000)
          (Some (JsError ''page.goto: Timeout 30000ms exceeded.''))],
       Inl (JsError ''page.goto: Timeout 30000ms exceeded.''))"
  by (simp add: prod_eq_iff scrapeAttempt_def loginStep_def always_def stuckHost_def
      timeoutHost_def calmHost_def)

lemma timeout_run:
  "run (scrapeHandler sampleConfig (always timeoutHost) sampleRequest) =
      ([receivedLog sampleRequest,
        Log [Str (''Starting scrape for: '' @ sampleUrl)], Call Launch None,
        Call NewContext None, Call NewPage None,
        Log [Str (''Navigating to product: '' @ sampleUrl)],
        Call (Goto (Str sampleUrl) ''domcontentloaded'' 30000)
          (Some (JsError ''page.goto: Timeout 30000ms exceeded.'')),
        LogError [Str ''Scraping error:'', Err ''page.goto: Timeout 30000ms exceeded.''],
        Call Close None,
        Respond 500 (Obj [(''error'', Str ''Failed to scrape product''),
                          (''details'', Str ''page.goto: Timeout 30000ms exceeded.'')])],
       Inr ())"
  using run_reached [OF sample_reaches_session, of "always timeoutHost"]
  by (simp add: prod_eq_iff sample_anonymous timeout_attempt fst_scrapeFailed snd_scrapeFailed)
     (simp add: always_def timeoutHost_def calmHost_def)

lemma stuck_run:
  "run (scrapeHandler sampleConfig (always stuckHost) sampleRequest) =
      ([receivedLog sampleRequest,
        Log [Str (''Starting scrape for: '' @ sampleUrl)], Call Launch None,
        Call NewContext None, Call NewPage None,
        Log [Str (''Navigating to product: '' @ sampleUrl)],
        Call (Goto (Str sampleUrl) ''domcontentloaded'' 30000)
          (Some (JsError ''page.goto: Timeout 30000ms exceeded.'')),
        LogError [Str ''Scraping error:'', Err ''page.goto: Timeout 30000ms exceeded.''],
        Call Close (Some (JsError ''browser.close: Target closed''))],
       Inl (JsError ''browser.close: Target closed''))"
  using run_reached [OF sample_reaches_session, of "always stuckHost"]
  by (simp add: prod_eq_iff sample_anonymous stuck_attempt fst_scrapeFailed snd_scrapeFailed)
     (simp add: always_def stuckHost_def timeoutHost_def calmHost_def)







section \<open>Claims\<close>

text \<open>
  C3. The supplier classifier is a total function of the URL string alone, and it is
  the priority classifier of the specification: a URL containing "richelieu.com" is
  Richelieu; otherwise one containing "homedepot.com" or "homedepot.ca" is Home Depot;
  otherwise one containing "lowes.com" or "lowes.ca" is Lowe's; otherwise one
  containing "amazon.com" or "amazon.ca" is Amazon; every other URL is Generic.
\<close>

theorem detectSupplier_priority: "detectSupplier u = label (classify_spec u)"
  by (simp add: detectSupplier_def classify_spec_def str_includes_iff)

theorem detectSupplier_priority_witness:
  "label (classify_spec ''https://www.homedepot.ca/p?ref=richelieu.com'') = ''Richelieu''
   \<and> label (classify_spec ''https://www.lowes.ca/amazon.com'') = ''Lowe's''
   \<and> label (classify_spec ''https://shop.example/p/1'') = ''Generic''"
  using detectSupplier_priority [of "''https://www.homedepot.ca/p?ref=richelieu.com''"]
    detectSupplier_priority [of "''https://www.lowes.ca/amazon.com''"]
    detectSupplier_priority [of "''https://shop.example/p/1''"]
  by (simp add: detectSupplier_def)

text \<open>
  C8. The MSRP of the Richelieu strategy: the line items of the price block
  ('.pms-PriceBlock li') are scanned in document order and the first one whose text
  mentions the MSRP supplies it; only when no item matches does the fixed selector
  list ('.list-price, .price-was, .msrp-price, .retail-price') supply it.
\<close>

theorem richelieu_msrp_two_tier:
  "getProp (richelieuPage doc) ''msrp'' =
    (case find isMsrpItem (querySelectorAll doc ''.pms-PriceBlock li'') of
       Some item \<Rightarrow> Str (trim (textContent item))
     | None \<Rightarrow> getTextContent doc ''.list-price, .price-was, .msrp-price, .retail-price'')"
proof -
  have "richelieuMsrp doc =
    (case find isMsrpItem (querySelectorAll doc ''.pms-PriceBlock li'') of
       Some item \<Rightarrow> Str (trim (textContent item))
     | None \<Rightarrow> getTextContent doc ''.list-price, .price-was, .msrp-price, .retail-price'')"
  proof (cases "find isMsrpItem (querySelectorAll doc ''.pms-PriceBlock li'')")
    case None
    then show ?thesis by (simp add: richelieuMsrp_def scanPriceBlock_find Let_def)
  next
    case (Some item)
    then have "isMsrpItem item" by (auto simp: find_Some_iff)
    then have "trim (textContent item) \<noteq> []" by (rule isMsrpItem_trim)
    with Some show ?thesis
      by (auto simp: richelieuMsrp_def scanPriceBlock_find Let_def)
  qed
  then show ?thesis by (simp add: richelieuPage_def getProp_def Let_def)
qed

theorem richelieu_msrp_two_tier_witness:
  "getProp (richelieuPage pricePage) ''msrp'' = Str ''MSRP: $12.50''
   \<and> getProp (richelieuPage fallbackPage) ''msrp'' = Str ''$99.00''"
proof -
  have a: "trim (textContent (sampleElement '' MSRP: $12.50 '')) = ''MSRP: $12.50''"
    by code_simp
  have b: "getTextContent fallbackPage ''.list-price, .price-was, .msrp-price, .retail-price''
     = Str ''$99.00''"
    by code_simp
  show ?thesis
    using richelieu_msrp_two_tier [of pricePage] richelieu_msrp_two_tier [of fallbackPage]
    by (simp add: pricePage_find fallbackPage_find a b)
qed

text \<open>
  C4. When the host evaluates the page function without fault, every strategy
  returns a record.  When the page has none of the elements the strategy looks for,
  each of name, sku, price, msrp, description, brand and imageUrl is null or absent in
  that record: name, sku, price and imageUrl are present and null, and url is the
  address of the page.  The Amazon strategy returns sku = null on every such page.
\<close>

theorem strategies_tolerate_missing_elements:
  assumes "evaluate (w (hostcalls pre @ [Evaluate])) = Inr doc"
  shows "(noneExpected name doc \<longrightarrow>
           (\<exists>tr data. scrapeBy name w pre = (tr, Inr data)
              \<and> list_all (emptyField data) optionalFields
              \<and> list_all (\<lambda>k. map_of data k = Some Null)
                   [''name'', ''sku'', ''price'', ''imageUrl'']
              \<and> map_of data ''url'' = Some (Str (href doc))))
         \<and> (\<exists>tr data. scrapeAmazon w pre = (tr, Inr data) \<and> map_of data ''sku'' = Some Null)"
proof
  show "noneExpected name doc \<longrightarrow>
           (\<exists>tr data. scrapeBy name w pre = (tr, Inr data)
              \<and> list_all (emptyField data) optionalFields
              \<and> list_all (\<lambda>k. map_of data k = Some Null)
                   [''name'', ''sku'', ''price'', ''imageUrl'']
              \<and> map_of data ''url'' = Some (Str (href doc)))"
  proof
    assume ne: "noneExpected name doc"
    obtain data where data: "snd (scrapeBy name w pre) = Inr data"
      and empty: "list_all (emptyField data) optionalFields"
      and null: "list_all (\<lambda>k. map_of data k = Some Null)
                   [''name'', ''sku'', ''price'', ''imageUrl'']"
      and addr: "map_of data ''url'' = Some (Str (href doc))"
    proof -
      consider (rich) "name = ''Richelieu''" | (depot) "name = ''Home Depot''"
        | (lowes) "name = ''Lowe's''" | (amazon) "name = ''Amazon''"
        | (other) "name \<notin> {''Richelieu'', ''Home Depot'', ''Lowe's'', ''Amazon''}"
        by blast
      then show ?thesis
      proof cases
        case rich
        have s: "snd (scrapeBy name w pre) = Inr (richelieuPage doc)"
          unfolding scrapeBy_returns [where w = w and pre = pre, OF assms] using rich by simp
        have n: "noneExpected ''Richelieu'' doc"
          using ne rich by simp
        show ?thesis by (rule that [OF s richelieu_empty [OF n]])
      next
        case depot
        have s: "snd (scrapeBy name w pre) = Inr (homeDepotPage doc)"
          unfolding scrapeBy_returns [where w = w and pre = pre, OF assms] using depot by simp
        have n: "noneExpected ''Home Depot'' doc"
          using ne depot by simp
        show ?thesis by (rule that [OF s homeDepot_empty [OF n]])
      next
        case lowes
        have s: "snd (scrapeBy name w pre) = Inr (lowesPage doc)"
          unfolding scrapeBy_returns [where w = w and pre = pre, OF assms] using lowes by simp
        have n: "noneExpected ''Lowe's'' doc"
          using ne lowes by simp
        show ?thesis by (rule that [OF s lowes_empty [OF n]])
      next
        case amazon
        have s: "snd (scrapeBy name w pre) = Inr (amazonPage doc)"
          unfolding scrapeBy_returns [where w = w and pre = pre, OF assms] using amazon by simp
        have n: "noneExpected ''Amazon'' doc"
          using ne amazon by simp
        show ?thesis by (rule that [OF s amazon_empty [OF n]])
      next
        case other
        have s: "snd (scrapeBy name w pre) = Inr (genericPage doc)"
          unfolding scrapeBy_returns [where w = w and pre = pre, OF assms] using other by simp
        show ?thesis by (rule that [OF s generic_empty [OF other ne]])
      qed
    qed
    have "scrapeBy name w pre = (fst (scrapeBy name w pre), Inr data)"
      by (simp add: prod_eq_iff data)
    with empty null addr show "\<exists>tr data. scrapeBy name w pre = (tr, Inr data)
              \<and> list_all (emptyField data) optionalFields
              \<and> list_all (\<lambda>k. map_of data k = Some Null)
                   [''name'', ''sku'', ''price'', ''imageUrl'']
              \<and> map_of data ''url'' = Some (Str (href doc))"
      by blast
  qed
next
  have "snd (scrapeAmazon w pre) = Inr (amazonPage doc)"
    using assms by (simp add: scrapeAmazon_def evaluateIn_def)
  then have "scrapeAmazon w pre = (fst (scrapeAmazon w pre), Inr (amazonPage doc))"
    by (simp add: prod_eq_iff)
  moreover have "map_of (amazonPage doc) ''sku'' = Some Null"
    by (simp add: amazonPage_def Let_def)
  ultimately show "\<exists>tr data. scrapeAmazon w pre = (tr, Inr data) \<and> map_of data ''sku'' = Some Null"
    by blast
qed

theorem strategies_tolerate_missing_elements_witness:
  "(\<exists>tr data. scrapeBy ''Richelieu'' (always calmHost) [] = (tr, Inr data)
       \<and> list_all (emptyField data) optionalFields
       \<and> list_all (\<lambda>k. map_of data k = Some Null) [''name'', ''sku'', ''price'', ''imageUrl'']
       \<and> map_of data ''url'' = Some (Str (href emptyPage)))
   \<and> (\<exists>tr data. scrapeAmazon (always calmHost) [] = (tr, Inr data)
         \<and> map_of data ''sku'' = Some Null)"
proof -
  have ev: "evaluate (always calmHost (hostcalls [] @ [Evaluate])) = Inr emptyPage"
    by (simp add: calmHost_def always_def)
  have ne: "noneExpected ''Richelieu'' emptyPage"
    by (simp add: noneExpected_def selectorsOf_def richelieuSelectors_def emptyPage_def)
  note t = strategies_tolerate_missing_elements
        [where w = "always calmHost" and pre = "[]" and name = "''Richelieu''", OF ev]
  from t [THEN conjunct1, THEN mp, OF ne] t [THEN conjunct2] show ?thesis
    by (rule conjI)
qed

text \<open>
  C6. A request whose url is missing or the empty string is answered at once with
  status 400 and the error "URL is required": the only event before the response is
  the log of the request; no call reaches the browser host, so no session is created
  and no screenshot is taken.
\<close>

theorem missing_url_rejected:
  assumes "url req = None \<or> url req = Some []"
  shows "run (scrapeHandler cfg w req) =
           ([receivedLog req, Respond 400 (Obj [(''error'', Str ''URL is required'')])], Inr ())
         \<and> hostcalls (fst (run (scrapeHandler cfg w req))) = []"
proof -
  from assms have "\<not> truthy (optField (url req))" by auto
  then have "run (scrapeHandler cfg w req) =
           ([receivedLog req, Respond 400 (Obj [(''error'', Str ''URL is required'')])], Inr ())"
    by (simp add: run_def scrapeHandler_def andThen_def emit_def)
  then show ?thesis by simp
qed

theorem missing_url_rejected_witness:
  "run (scrapeHandler sampleConfig (always calmHost) (sampleRequest\<lparr>url := Some []\<rparr>))
     = ([receivedLog (sampleRequest\<lparr>url := Some []\<rparr>),
         Respond 400 (Obj [(''error'', Str ''URL is required'')])], Inr ())
   \<and> hostcalls (fst (run (scrapeHandler sampleConfig (always calmHost)
                           (sampleRequest\<lparr>url := Some []\<rparr>)))) = []"
  using missing_url_rejected
    [of "sampleRequest\<lparr>url := Some []\<rparr>" sampleConfig "always calmHost"]
  by simp

text \<open>
  C1, as amended.  For every request that reaches session creation (a non-empty url,
  an accepted bearer token, a launch that returns), whatever the outcome of every
  other call to the host (login, navigation, settle, extraction, screenshot,
  release): either the browser is launched exactly once and released exactly once,
  the release precedes the single response, and the handler returns; or the last
  event is a release that threw, and then the session is not released and no response
  is sent.
\<close>

theorem one_session_released_before_response:
  assumes "url req = Some u" and "u \<noteq> []" and "authorized cfg req"
    and "launch (w [Launch]) = Inr ()"
  shows "(\<exists>status body.
            lifecycle (fst (run (scrapeHandler cfg w req)))
              = [Call Launch None, Call Close None, Respond status body]
            \<and> snd (run (scrapeHandler cfg w req)) = Inr ())
         \<or> (\<exists>e. last (fst (run (scrapeHandler cfg w req))) = Call Close (Some e)
              \<and> lifecycle (fst (run (scrapeHandler cfg w req))) = [Call Launch None]
              \<and> snd (run (scrapeHandler cfg w req)) = Inl e)"
proof -
  let ?A = "scrapeAttempt w u (credentials req) [receivedLog req]"
  note reached = run_reached [OF assms(1-3), of w]
  have launch: "launch (w (hostcalls [receivedLog req] @ [Launch])) = Inr ()"
    using assms(4) by simp
  have launched: "Call Launch None \<in> set (receivedLog req # fst ?A)"
    using attempt_launched [where w = w and pre = "[receivedLog req]", OF launch] by simp
  show ?thesis
  proof (cases "snd ?A")
    case (Inr x)
    then have "snd ?A = Inr ()" by simp
    from lifecycle_finished_attempt [OF this] obtain body
      where "lifecycle (fst ?A) = [Call Launch None, Call Close None, Respond 200 body]"
      by blast
    with Inr show ?thesis by (simp add: reached)
  next
    case (Inl e)
    note life = lifecycle_failed_attempt [where w = w and pre = "[receivedLog req]", OF launch Inl]
    show ?thesis
    proof (cases "close_catch (w (hostcalls (fst ?A) @ [Close]))")
      case (Inr x)
      with Inl launched life show ?thesis
        by (simp add: reached fst_scrapeFailed snd_scrapeFailed)
    next
      case Inl': (Inl e')
      with Inl launched life show ?thesis
        by (simp add: reached fst_scrapeFailed snd_scrapeFailed)
    qed
  qed
qed

theorem one_session_released_before_response_witness:
  "(\<exists>status body.
      lifecycle (fst (run (scrapeHandler sampleConfig (always timeoutHost) sampleRequest)))
        = [Call Launch None, Call Close None, Respond status body]
      \<and> snd (run (scrapeHandler sampleConfig (always timeoutHost) sampleRequest)) = Inr ())
   \<and> (\<exists>e. last (fst (run (scrapeHandler sampleConfig (always stuckHost) sampleRequest)))
            = Call Close (Some e)
      \<and> lifecycle (fst (run (scrapeHandler sampleConfig (always stuckHost) sampleRequest)))
            = [Call Launch None]
      \<and> snd (run (scrapeHandler sampleConfig (always stuckHost) sampleRequest)) = Inl e)"
proof -
  have a: "launch (always timeoutHost [Launch]) = Inr ()"
    by (simp add: always_def timeoutHost_def calmHost_def)
  have b: "launch (always stuckHost [Launch]) = Inr ()"
    by (simp add: always_def stuckHost_def timeoutHost_def calmHost_def)
  have returned: "snd (run (scrapeHandler sampleConfig (always timeoutHost) sampleRequest)) = Inr ()"
    by (simp add: timeout_run)
  have thrown: "snd (run (scrapeHandler sampleConfig (always stuckHost) sampleRequest))
      = Inl (JsError ''browser.close: Target closed'')"
    by (simp add: stuck_run)
  from one_session_released_before_response
      [where w = "always timeoutHost", OF sample_reaches_session a] returned
  have first: "\<exists>status body.
      lifecycle (fst (run (scrapeHandler sampleConfig (always timeoutHost) sampleRequest)))
        = [Call Launch None, Call Close None, Respond status body]
      \<and> snd (run (scrapeHandler sampleConfig (always timeoutHost) sampleRequest)) = Inr ()"
    by auto
  from one_session_released_before_response
      [where w = "always stuckHost", OF sample_reaches_session b] thrown
  have second: "\<exists>e. last (fst (run (scrapeHandler sampleConfig (always stuckHost) sampleRequest)))
            = Call Close (Some e)
      \<and> lifecycle (fst (run (scrapeHandler sampleConfig (always stuckHost) sampleRequest)))
            = [Call Launch None]
      \<and> snd (run (scrapeHandler sampleConfig (always stuckHost) sampleRequest)) = Inl e"
    by auto
  from first second show ?thesis by (rule conjI)
qed

text \<open>
  C1 as stated fails: when navigation times out and the release in the catch block
  throws, the browser was launched, no call of \<^verbatim>\<open>browser.close\<close> returns, and the
  handler ends without a response.
\<close>

theorem session_not_released:
  "fst (run (scrapeHandler sampleConfig (always stuckHost) sampleRequest)) =
      [receivedLog sampleRequest,
       Log [Str (''Starting scrape for: '' @ sampleUrl)], Call Launch None,
       Call NewContext None, Call NewPage None,
       Log [Str (''Navigating to product: '' @ sampleUrl)],
       Call (Goto (Str sampleUrl) ''domcontentloaded'' 30000)
         (Some (JsError ''page.goto: Timeout 30000ms exceeded.'')),
       LogError [Str ''Scraping error:'', Err ''page.goto: Timeout 30000ms exceeded.''],
       Call Close (Some (JsError ''browser.close: Target closed''))]
   \<and> lifecycle (fst (run (scrapeHandler sampleConfig (always stuckHost) sampleRequest)))
       = [Call Launch None]"
  by (simp add: stuck_run)




text \<open>
  C5. When the credentials are absent, or the username or the password is absent or
  empty, neither login function is entered, and after session creation (launch, new
  context, new page) the next call to the host is the navigation to the target url.
\<close>

theorem no_login_without_credentials:
  assumes "credentials req = None
    \<or> (\<exists>c. credentials req = Some c
          \<and> (username c = None \<or> username c = Some []
              \<or> password c = None \<or> password c = Some []))"
  shows "entered (fst (run (scrapeHandler cfg w req))) = []
    \<and> (url req = Some u \<and> u \<noteq> [] \<and> authorized cfg req
        \<and> launch (w [Launch]) = Inr () \<and> newContext (w [Launch, NewContext]) = Inr ()
        \<and> newPage (w [Launch, NewContext, NewPage]) = Inr ()
        \<longrightarrow> (\<exists>rest. hostcalls (fst (run (scrapeHandler cfg w req))) =
              Launch # NewContext # NewPage # Goto (Str u) ''domcontentloaded'' 30000 # rest))"
proof -
  have skip: "loginStep w (credentials req) = ret ()"
    using assms by (auto simp: loginStep_def)
  have "entered (fst (run (scrapeHandler cfg w req))) = []"
    by (rule noEnter_scrapeHandler) (simp add: skip produces_ret)
  moreover have "\<exists>rest. hostcalls (fst (run (scrapeHandler cfg w req))) =
              Launch # NewContext # NewPage # Goto (Str u) ''domcontentloaded'' 30000 # rest"
    if "url req = Some u" "u \<noteq> []" "authorized cfg req" "launch (w [Launch]) = Inr ()"
      "newContext (w [Launch, NewContext]) = Inr ()"
      "newPage (w [Launch, NewContext, NewPage]) = Inr ()"
    using that by (rule hostcalls_reach_navigation) (simp add: skip)
  ultimately show ?thesis by blast
qed

theorem no_login_without_credentials_witness:
  "entered (fst (run (scrapeHandler sampleConfig (always calmHost) sampleRequest))) = []
   \<and> (\<exists>rest. hostcalls (fst (run (scrapeHandler sampleConfig (always calmHost) sampleRequest))) =
         Launch # NewContext # NewPage # Goto (Str sampleUrl) ''domcontentloaded'' 30000 # rest)"
proof -
  have "launch (always calmHost [Launch]) = Inr ()"
    "newContext (always calmHost [Launch, NewContext]) = Inr ()"
    "newPage (always calmHost [Launch, NewContext, NewPage]) = Inr ()"
    by (simp_all add: always_def calmHost_def)
  then show ?thesis
    using no_login_without_credentials
        [where req = sampleRequest and cfg = sampleConfig and w = "always calmHost"
           and u = sampleUrl]
      sample_reaches_session sample_anonymous
    by simp
qed




text \<open>
  C9, as amended.  On a fatal path (the try block threw \<open>e\<close> after the browser
  was launched): when the release in the catch block returns, the caller receives the
  failure envelope with status 500 and the message of \<open>e\<close> as details; when that
  release itself throws \<open>e'\<close>, nothing more is logged, no response is sent and the
  handler ends with \<open>e'\<close>.
\<close>

theorem release_fault_on_failure_path:
  assumes "url req = Some u" and "u \<noteq> []" and "authorized cfg req"
    and "launch (w [Launch]) = Inr ()"
    and "snd (scrapeAttempt w u (credentials req) [receivedLog req]) = Inl e"
  shows "(close_catch
            (w (hostcalls (fst (scrapeAttempt w u (credentials req) [receivedLog req])) @ [Close]))
            = Inr () \<longrightarrow>
            fst (run (scrapeHandler cfg w req)) =
              receivedLog req # fst (scrapeAttempt w u (credentials req) [receivedLog req])
              @ [LogError [Str ''Scraping error:'', Err (message e)],
                 Call Close None,
                 Respond 500 (Obj [(''error'', Str ''Failed to scrape product''),
                                   (''details'', Str (message e))])]
            \<and> responses (fst (run (scrapeHandler cfg w req))) =
                [Respond 500 (Obj [(''error'', Str ''Failed to scrape product''),
                                   (''details'', Str (message e))])]
            \<and> snd (run (scrapeHandler cfg w req)) = Inr ())
       \<and> (\<forall>e'. close_catch
            (w (hostcalls (fst (scrapeAttempt w u (credentials req) [receivedLog req])) @ [Close]))
            = Inl e' \<longrightarrow>
            fst (run (scrapeHandler cfg w req)) =
              receivedLog req # fst (scrapeAttempt w u (credentials req) [receivedLog req])
              @ [LogError [Str ''Scraping error:'', Err (message e)], Call Close (Some e')]
            \<and> responses (fst (run (scrapeHandler cfg w req))) = []
            \<and> snd (run (scrapeHandler cfg w req)) = Inl e')"
proof -
  have launch: "launch (w (hostcalls [receivedLog req] @ [Launch])) = Inr ()"
    using assms(4) by simp
  have launched: "Call Launch None
      \<in> set (fst (scrapeAttempt w u (credentials req) [receivedLog req]))"
    by (rule attempt_launched [where w = w and pre = "[receivedLog req]", OF launch])
  show ?thesis
    using assms(5) launched failed_attempt_no_response [OF assms(5)]
    by (simp add: run_reached [OF assms(1-3)] fst_scrapeFailed snd_scrapeFailed)
qed

theorem release_fault_on_failure_path_witness:
  "(fst (run (scrapeHandler sampleConfig (always timeoutHost) sampleRequest)) =
      receivedLog sampleRequest
      # fst (scrapeAttempt (always timeoutHost) sampleUrl None [receivedLog sampleRequest])
      @ [LogError [Str ''Scraping error:'', Err ''page.goto: Timeout 30000ms exceeded.''],
         Call Close None,
         Respond 500 (Obj [(''error'', Str ''Failed to scrape product''),
                           (''details'', Str ''page.goto: Timeout 30000ms exceeded.'')])]
    \<and> responses (fst (run (scrapeHandler sampleConfig (always timeoutHost) sampleRequest))) =
        [Respond 500 (Obj [(''error'', Str ''Failed to scrape product''),
                           (''details'', Str ''page.goto: Timeout 30000ms exceeded.'')])]
    \<and> snd (run (scrapeHandler sampleConfig (always timeoutHost) sampleRequest)) = Inr ())
   \<and> (fst (run (scrapeHandler sampleConfig (always stuckHost) sampleRequest)) =
      receivedLog sampleRequest
      # fst (scrapeAttempt (always stuckHost) sampleUrl None [receivedLog sampleRequest])
      @ [LogError [Str ''Scraping error:'', Err ''page.goto: Timeout 30000ms exceeded.''],
         Call Close (Some (JsError ''browser.close: Target closed''))]
    \<and> responses (fst (run (scrapeHandler sampleConfig (always stuckHost) sampleRequest))) = []
    \<and> snd (run (scrapeHandler sampleConfig (always stuckHost) sampleRequest))
        = Inl (JsError ''browser.close: Target closed''))"
proof -
  have a1: "snd (scrapeAttempt (always timeoutHost) sampleUrl (credentials sampleRequest)
                  [receivedLog sampleRequest])
      = Inl (JsError ''page.goto: Timeout 30000ms exceeded.'')"
    by (simp add: sample_anonymous timeout_attempt)
  have a2: "snd (scrapeAttempt (always stuckHost) sampleUrl (credentials sampleRequest)
                  [receivedLog sampleRequest])
      = Inl (JsError ''page.goto: Timeout 30000ms exceeded.'')"
    by (simp add: sample_anonymous stuck_attempt)
  have host: "launch (always timeoutHost [Launch]) = Inr ()"
    "\<And>calls. close_catch (always timeoutHost calls) = Inr ()"
    "launch (always stuckHost [Launch]) = Inr ()"
    "\<And>calls. close_catch (always stuckHost calls) = Inl (JsError ''browser.close: Target closed'')"
    by (simp_all add: always_def stuckHost_def timeoutHost_def calmHost_def)
  show ?thesis
    using release_fault_on_failure_path
        [where w = "always timeoutHost", OF sample_reaches_session host(1) a1, unfolded jserror.sel]
      release_fault_on_failure_path
        [where w = "always stuckHost", OF sample_reaches_session host(3) a2, unfolded jserror.sel]
      host(2,4)
    unfolding sample_anonymous by blast
qed

text \<open>
  C9 as stated fails: when navigation times out and the release in the catch block
  throws, no response is sent, the handler ends with the release error, and the log
  ends with the navigation error, without any record of the release fault.
\<close>

theorem release_fault_masks_outcome:
  "responses (fst (run (scrapeHandler sampleConfig (always stuckHost) sampleRequest))) = []
   \<and> snd (run (scrapeHandler sampleConfig (always stuckHost) sampleRequest))
       = Inl (JsError ''browser.close: Target closed'')
   \<and> logs (fst (run (scrapeHandler sampleConfig (always stuckHost) sampleRequest))) =
       [receivedLog sampleRequest,
        Log [Str (''Starting scrape for: '' @ sampleUrl)],
        Log [Str (''Navigating to product: '' @ sampleUrl)],
        LogError [Str ''Scraping error:'', Err ''page.goto: Timeout 30000ms exceeded.'']]"
  by (simp add: stuck_run)

text \<open>
  C10. With a non-empty username and password, a supplierName that does not contain
  "richelieu" case-insensitively (or none) and no loginUrl, neither login function is
  entered; apart from the log output the handler does exactly what it does for the
  same request without credentials; and after session creation (launch, new context,
  new page) the next call to the host is the navigation to the target url.
\<close>

theorem no_login_flow_selected:
  assumes "credentials req = Some c"
    and "truthy (optField (username c))" and "truthy (optField (password c))"
    and "\<not> (\<exists>n. supplierName c = Some n \<and> contains (toLowerCase n) ''richelieu'')"
    and "loginUrl c = None \<or> loginUrl c = Some []"
  shows "entered (fst (run (scrapeHandler cfg w req))) = []
    \<and> actions (fst (run (scrapeHandler cfg w req)))
        = actions (fst (run (scrapeHandler cfg w (req\<lparr>credentials := None\<rparr>))))
    \<and> snd (run (scrapeHandler cfg w req))
        = snd (run (scrapeHandler cfg w (req\<lparr>credentials := None\<rparr>)))
    \<and> (url req = Some u \<and> u \<noteq> [] \<and> authorized cfg req
        \<and> launch (w [Launch]) = Inr () \<and> newContext (w [Launch, NewContext]) = Inr ()
        \<and> newPage (w [Launch, NewContext, NewPage]) = Inr ()
        \<longrightarrow> (\<exists>rest. hostcalls (fst (run (scrapeHandler cfg w req))) =
              Launch # NewContext # NewPage # Goto (Str u) ''domcontentloaded'' 30000 # rest))"
proof -
  have sel: "selectedLogin w c = ret ()"
    using assms(4,5) by (auto simp: selectedLogin_def namesRichelieu_iff)
  have login: "fst (loginStep w (credentials req) pre) =
      [Log [Str (''Logging into '' @ interp (supplierName c) @ ''...'')],
       Log [Str ''Login complete, now navigating to product page...'']]" for pre
    using assms(1-3) by (simp add: loginStep_def sel)
  have "produces (\<lambda>ev. \<not> isEnter ev) (loginStep w (credentials req))"
    by (simp add: produces_def login)
  then have none: "entered (fst (run (scrapeHandler cfg w req))) = []"
    by (rule noEnter_scrapeHandler)
  have "sameActions (loginStep w (credentials req))
          (loginStep w (credentials (req\<lparr>credentials := None\<rparr>)))"
    by (simp add: sameActions_def login) (simp add: loginStep_def)
  then have "sameActions (scrapeHandler cfg w req)
      (scrapeHandler cfg w (req\<lparr>credentials := None\<rparr>))"
    by (intro sameActions_scrapeHandler) simp_all
  note same = sameActions_run [OF this]
  have "\<exists>rest. hostcalls (fst (run (scrapeHandler cfg w req))) =
              Launch # NewContext # NewPage # Goto (Str u) ''domcontentloaded'' 30000 # rest"
    if "url req = Some u" "u \<noteq> []" "authorized cfg req" "launch (w [Launch]) = Inr ()"
      "newContext (w [Launch, NewContext]) = Inr ()"
      "newPage (w [Launch, NewContext, NewPage]) = Inr ()"
    using that by (rule hostcalls_reach_navigation) (simp add: login)
  with none same show ?thesis by blast
qed

theorem no_login_flow_selected_witness:
  "entered (fst (run (scrapeHandler sampleConfig (always calmHost)
                       (sampleRequest\<lparr>credentials := Some plainCredentials\<rparr>)))) = []
   \<and> actions (fst (run (scrapeHandler sampleConfig (always calmHost)
                          (sampleRequest\<lparr>credentials := Some plainCredentials\<rparr>))))
       = actions (fst (run (scrapeHandler sampleConfig (always calmHost) sampleRequest)))
   \<and> snd (run (scrapeHandler sampleConfig (always calmHost)
                  (sampleRequest\<lparr>credentials := Some plainCredentials\<rparr>)))
       = snd (run (scrapeHandler sampleConfig (always calmHost) sampleRequest))
   \<and> (\<exists>rest. hostcalls (fst (run (scrapeHandler sampleConfig (always calmHost)
                                   (sampleRequest\<lparr>credentials := Some plainCredentials\<rparr>)))) =
         Launch # NewContext # NewPage # Goto (Str sampleUrl) ''domcontentloaded'' 30000 # rest)"
proof -
  let ?req = "sampleRequest\<lparr>credentials := Some plainCredentials\<rparr>"
  have anon: "?req\<lparr>credentials := None\<rparr> = sampleRequest"
    by (simp add: sampleRequest_def)
  have creds: "credentials ?req = Some plainCredentials"
    "truthy (optField (username plainCredentials))"
    "truthy (optField (password plainCredentials))"
    "loginUrl plainCredentials = None \<or> loginUrl plainCredentials = Some []"
    by (simp_all add: plainCredentials_def)
  have reach: "url ?req = Some sampleUrl" "sampleUrl \<noteq> []" "authorized sampleConfig ?req"
    using sample_reaches_session by (simp_all add: authorized_def)
  have host: "launch (always calmHost [Launch]) = Inr ()"
    "newContext (always calmHost [Launch, NewContext]) = Inr ()"
    "newPage (always calmHost [Launch, NewContext, NewPage]) = Inr ()"
    by (simp_all add: always_def calmHost_def)
  show ?thesis
    using no_login_flow_selected
      [where w = "always calmHost" and cfg = sampleConfig and u = sampleUrl,
        OF creds(1-3) plainCredentials_unnamed creds(4)] reach host
    unfolding anon by blast
qed

end
